theory Spec2Isabelle
  imports Main "HOL-Library.Word"
begin

section \<open>Data model of the block replay (package state, DebugBlock)\<close>

text \<open>
  Byte slices are lists of bytes (a nil slice is the empty list). A \<open>common.Hash\<close> and a
  \<open>common.Address\<close> are carried as their bytes, so \<open>.Bytes()\<close> is the identity; their
  textual renderings are library functions taken as parameters below. A \<open>*big.Int\<close> is an
  \<open>int\<close>, a nil one is \<open>None\<close>.
\<close>

type_synonym bytes = "8 word list"
type_synonym hash = bytes
type_synonym address = bytes
type_synonym uint64 = "64 word"
type_synonym uint32 = "32 word"
type_synonym uint8 = "8 word"

text \<open>The zero value of \<open>common.Hash\<close> (\<open>var transactionHash common.Hash\<close>).\<close>

definition zeroHash :: hash where
  "zeroHash = replicate 32 0"

subsection \<open>Errors, panics and what a call returns\<close>

text \<open>
  \<open>Err m\<close> is an error value produced by a collaborator, named by its message;
  \<open>Wrap\<close> is \<open>fmt.Errorf\<close> with \<open>%w\<close>, \<open>Errorf\<close> is \<open>fmt.Errorf\<close> with \<open>%v\<close>
  (the argument is rendered into the message and cannot be unwrapped).
\<close>

datatype error =
    Err string
  | ErrEffectiveGasPriceEmpty
  | ErrInvalidData
  | Wrap string error
  | Errorf string "error option"

text \<open>\<open>errors.Is\<close>: the error itself or one it wraps is the target.\<close>

fun errors_Is :: "error \<Rightarrow> error \<Rightarrow> bool" where
  "errors_Is (Wrap m e) target = (Wrap m e = target \<or> errors_Is e target)"
| "errors_Is e target = (e = target)"

datatype panic = NilPointerDereference | IndexOutOfRange

subsection \<open>Chain entities\<close>

record Transaction =
  tx_Hash :: hash
  tx_To :: "address option"
  tx_Data :: bytes
  tx_Gas :: uint64
  tx_Value :: int
  tx_GasPrice :: int
  tx_Signature :: bytes

record Receipt =
  receipt_BlockHash :: hash
  receipt_BlockNumber :: int
  receipt_TransactionIndex :: nat
  EffectiveGasPrice :: "int option"

record L2Block =
  NumberU64 :: uint64
  block_Time :: uint64
  block_Coinbase :: address
  Root :: hash
  Transactions :: "Transaction list"

text \<open>\<open>Timestamp_Unix\<close> is \<open>batch.Timestamp.Unix()\<close> converted to \<open>uint64\<close>.\<close>

record Batch =
  BatchNumber :: uint64
  AccInputHash :: hash
  batch_GlobalExitRoot :: hash
  batch_Coinbase :: address
  Timestamp_Unix :: uint64
  batch_StateRoot :: hash
  batch_BatchL2Data :: bytes

record L2BlockRaw =
  IndexL1InfoTree :: uint32
  raw_Transactions :: "Transaction list"

record L2BatchRaw =
  Blocks :: "L2BlockRaw list"

record VirtualBatch =
  vb_BlockNumber :: uint64

record Block =
  BlockHash :: hash

record L1DataV2 =
  l1_GlobalExitRoot :: hash
  l1_BlockHashL1 :: hash
  l1_MinTimestamp :: uint64

record executor_L1DataV2 =
  x_GlobalExitRoot :: bytes
  x_BlockHashL1 :: bytes
  x_MinTimestamp :: uint64

subsection \<open>Trace configuration and executor messages\<close>

record TraceConfig =
  DisableStorage :: bool
  DisableStack :: bool
  EnableMemory :: bool
  EnableReturnData :: bool
  Tracer :: "string option"
  TracerConfig :: bytes
  Limit :: "nat option"

text \<open>
  Modelled from the spec: \<open>cTrue\<close> and \<open>cFalse\<close>, the executor's encoding of a set and a
  cleared flag, are declared outside the source; line 280 of the source writes the set
  flag as the literal 1.
\<close>

definition cTrue :: uint32 where
  "cTrue = 1"

definition cFalse :: uint32 where
  "cFalse = 0"

record executor_TraceConfig =
  TxHashToGenerateFullTrace :: bytes
  req_DisableStorage :: uint32
  req_DisableStack :: uint32
  req_EnableMemory :: uint32
  req_EnableReturnData :: uint32

record executor_TraceConfigV2 =
  TxHashToGenerateFullTrace_V2 :: bytes
  req_DisableStorage_V2 :: uint32
  req_DisableStack_V2 :: uint32
  req_EnableMemory_V2 :: uint32
  req_EnableReturnData_V2 :: uint32

record ProcessBatchRequest =
  OldBatchNum :: uint64
  OldStateRoot :: bytes
  OldAccInputHash :: bytes
  BatchL2Data :: bytes
  Coinbase :: string
  UpdateMerkleTree :: uint32
  ChainId :: uint64
  ForkId :: uint64
  req_TraceConfig :: executor_TraceConfig
  ContextId :: string
  GlobalExitRoot :: bytes
  EthTimestamp :: uint64

record ProcessBatchRequestV2 =
  OldBatchNum_V2 :: uint64
  OldStateRoot_V2 :: bytes
  OldAccInputHash_V2 :: bytes
  BatchL2Data_V2 :: bytes
  Coinbase_V2 :: string
  UpdateMerkleTree_V2 :: uint32
  ChainId_V2 :: uint64
  ForkId_V2 :: uint64
  req_TraceConfig_V2 :: executor_TraceConfigV2
  ContextId_V2 :: string
  L1InfoRoot :: bytes
  TimestampLimit :: uint64
  SkipFirstChangeL2Block :: uint32
  SkipWriteBlockInfoRoot :: uint32
  ForcedBlockhashL1 :: bytes
  SkipVerifyL1InfoRoot :: uint32
  L1InfoTreeData :: "(uint32 \<times> executor_L1DataV2) list"

text \<open>
  The executor's answer, both protocol generations: the global error code, and the rest of
  the message, which only the conversion functions (outside the source) read.
\<close>

type_synonym executor_ExecutorError = "32 word"

record executor_ProcessBatchResponse =
  Error :: executor_ExecutorError
  Body :: bytes

type_synonym executor_ProcessBatchResponseV2 = executor_ProcessBatchResponse

record Context =
  ctx_Type :: string
  ctx_From :: string
  ctx_To :: string
  ctx_Input :: bytes
  ctx_Gas :: uint64
  ctx_Value :: int
  ctx_Output :: bytes
  ctx_GasPrice :: string
  ctx_OldStateRoot :: hash
  ctx_Time :: uint64
  ctx_GasUsed :: uint64

record FullTrace =
  trace_Context :: Context
  Steps :: bytes

record ProcessTransactionResponse =
  response_CreateAddress :: address
  response_GasLeft :: uint64
  response_GasUsed :: uint64
  response_ReturnValue :: bytes
  response_StateRoot :: hash
  response_FullTrace :: FullTrace
  RomError :: "error option"

record ProcessBlockResponse =
  TransactionResponses :: "ProcessTransactionResponse list"

record ProcessBatchResponse =
  BlockResponses :: "ProcessBlockResponse list"

record ExecutionResult =
  CreateAddress :: address
  GasLeft :: uint64
  GasUsed :: uint64
  ReturnValue :: bytes
  StateRoot :: bytes
  result_FullTrace :: FullTrace
  result_Err :: "error option"
  TraceResult :: bytes


subsection \<open>Collaborators\<close>

text \<open>
  Everything \<open>DebugBlock\<close> calls that lies outside the source is a parameter of the
  model: the storage queries, the batch codec, the executor client, the tracer family and
  the library functions. A Go call returning \<open>(value, err)\<close> is a function into
  \<open>error + value\<close>; \<open>DecodeTxs\<close>, whose transactions are read even when it reports an
  error, returns both.
\<close>

record storage =
  GetL2BlockByNumber :: "uint64 \<Rightarrow> error + L2Block"
  GetTransactionReceipt :: "hash \<Rightarrow> error + Receipt"
  GetBatchByL2BlockNumber :: "uint64 \<Rightarrow> error + Batch"
  GetForkIDByBatchNumber :: "uint64 \<Rightarrow> uint64"
  GetFirstL2BlockNumberForBatchNumber :: "uint64 \<Rightarrow> error + uint64"
  GetVirtualBatch :: "uint64 \<Rightarrow> error + VirtualBatch"
  GetBlockByNumber :: "uint64 \<Rightarrow> error + Block"
  GetL1InfoTreeDataFromBatchL2Data :: "bytes \<Rightarrow> error + (uint32 \<times> L1DataV2) list"
  cfg_ChainID :: uint64

record codec =
  CalculateEffectiveGasPricePercentage :: "int \<Rightarrow> int option \<Rightarrow> error + uint8"
  MaxEffectivePercentage :: uint8
  FORKID_ETROG :: uint64
  EncodeTransactions :: "Transaction list \<Rightarrow> uint8 list \<Rightarrow> uint64 \<Rightarrow> error + bytes"
  DecodeTxs :: "bytes \<Rightarrow> uint64 \<Rightarrow> Transaction list \<times> error option"
  DecodeBatchV2 :: "bytes \<Rightarrow> error + L2BatchRaw"
  BuildChangeL2Block :: "uint32 \<Rightarrow> uint32 \<Rightarrow> bytes"
  GetMockL1InfoRoot :: hash
  GetSender :: "Transaction \<Rightarrow> error + address"

text \<open>
  \<open>EXECUTOR_ERROR_NO_ERROR\<close> is the executor's success code, a constant declared outside
  the source; \<open>ExecutorErr\<close> maps a code to a Go \<open>error\<close>, which may be nil.
\<close>

record executorClient =
  ProcessBatch :: "ProcessBatchRequest \<Rightarrow> error + executor_ProcessBatchResponse"
  ProcessBatchV2 :: "ProcessBatchRequestV2 \<Rightarrow> error + executor_ProcessBatchResponseV2"
  EXECUTOR_ERROR_NO_ERROR :: executor_ExecutorError
  ExecutorErr :: "executor_ExecutorError \<Rightarrow> error option"
  convertToProcessBatchResponse :: "executor_ProcessBatchResponse \<Rightarrow> error + ProcessBatchResponse"
  convertToProcessBatchResponseV2 :: "executor_ProcessBatchResponseV2 \<Rightarrow> error + ProcessBatchResponse"

text \<open>A tracer is an opaque object; only its constructors and \<open>buildTrace\<close> look inside.\<close>

type_synonym tracers_Tracer = nat

record tracers_Context =
  tc_BlockHash :: hash
  tc_BlockNumber :: int
  tc_TxIndex :: nat
  tc_TxHash :: hash

record structlogger_Config =
  sl_EnableMemory :: bool
  sl_DisableStack :: bool
  sl_DisableStorage :: bool
  sl_EnableReturnData :: bool

text \<open>
  The replay environment handed to \<open>buildTrace\<close>: \<open>FakeDB\<close> pinned to the batch's state
  root, block number 1, the parsed gas price and the tracer.
\<close>

record fakevm_FakeEVM =
  evm_BlockNumber :: int
  evm_GasPrice :: int
  fakeDB_stateRoot :: bytes
  evm_Debug :: bool
  evm_Tracer :: tracers_Tracer

record tracing =
  IsDefaultTracer :: "TraceConfig \<Rightarrow> bool"
  Is4ByteTracer :: "TraceConfig \<Rightarrow> bool"
  IsCallTracer :: "TraceConfig \<Rightarrow> bool"
  IsFlatCallTracer :: "TraceConfig \<Rightarrow> bool"
  IsNoopTracer :: "TraceConfig \<Rightarrow> bool"
  IsPrestateTracer :: "TraceConfig \<Rightarrow> bool"
  IsJSCustomTracer :: "TraceConfig \<Rightarrow> bool"
  ParseTrace :: "structlogger_Config \<Rightarrow> ExecutionResult \<Rightarrow> Receipt \<Rightarrow> error + bytes"
  NewFourByteTracer :: "tracers_Context \<Rightarrow> bytes \<Rightarrow> error + tracers_Tracer"
  NewCallTracer :: "tracers_Context \<Rightarrow> bytes \<Rightarrow> error + tracers_Tracer"
  NewFlatCallTracer :: "tracers_Context \<Rightarrow> bytes \<Rightarrow> error + tracers_Tracer"
  SetFlatCallTracerLimit :: "tracers_Tracer \<Rightarrow> nat option \<Rightarrow> tracers_Tracer"
  NewNoopTracer :: "tracers_Context \<Rightarrow> bytes \<Rightarrow> error + tracers_Tracer"
  NewPrestateTracer :: "tracers_Context \<Rightarrow> bytes \<Rightarrow> error + tracers_Tracer"
  NewJsTracer :: "string \<Rightarrow> tracers_Context \<Rightarrow> bytes \<Rightarrow> error + tracers_Tracer"
  buildTrace :: "fakevm_FakeEVM \<Rightarrow> ExecutionResult \<Rightarrow> tracers_Tracer \<Rightarrow> error + bytes"

text \<open>
  Library calls: the renderings of an address and of a big integer, the parse of a
  decimal string (\<open>SetString\<close> with base 10, \<open>None\<close> for \<open>ok = false\<close>), the readings of
  the clock (\<open>time.Now().Unix()\<close> in seconds for the timestamp limit, \<open>time.Now()\<close> in
  nanoseconds for \<open>startTime\<close> and \<open>endTime\<close>) and the fresh context identifier.
\<close>

record library =
  Address_String :: "address \<Rightarrow> string"
  Address_Hex :: "address \<Rightarrow> string"
  BigInt_String :: "int \<Rightarrow> string"
  BigInt_SetString :: "string \<Rightarrow> int option"
  now_TimestampLimit :: int
  now_startTime :: int
  now_endTime :: int
  uuid_NewString :: string

record env =
  st :: storage
  cd :: codec
  ex :: executorClient
  tr :: tracing
  lib :: library

subsection \<open>The audit log and the result of a call\<close>

datatype event =
    LogExecutorError executor_ExecutorError ProcessBatchRequest
  | LogExecutorErrorV2 executor_ExecutorError ProcessBatchRequestV2

text \<open>
  A call of \<open>DebugBlock\<close> either returns the Go pair (results, error), where nil results
  are the empty list and a nil error is \<open>None\<close>, or panics. It is paired with the
  entries the call wrote to the event log. The text logger (\<open>log.Debugf\<close>,
  \<open>log.Errorf\<close>) is write-only and is not modelled.
\<close>

datatype outcome = Return "ExecutionResult list" "error option" | Panic panic

type_synonym run = "outcome \<times> event list"

text \<open>\<open>return nil, err\<close> with a non-nil error, and a panic, before anything was logged.\<close>

definition fail :: "error \<Rightarrow> run + 'a" where
  "fail e = Inl (Return [] (Some e), [])"

definition panics :: "panic \<Rightarrow> run + 'a" where
  "panics p = Inl (Panic p, [])"


section \<open>The replay, stage by stage\<close>

subsection \<open>Lines 31-91: the block, its last transaction, the encoding inputs, the batch\<close>

text \<open>The local variables of \<open>DebugBlock\<close> that the later stages read.\<close>

record frame =
  l2Block :: L2Block
  previousL2Block :: L2Block
  oldStateRoot :: hash
  tx :: "Transaction option"
  receipt :: "Receipt option"
  transactionHash :: hash
  txsToEncode :: "Transaction list"
  effectivePercentage :: "uint8 list"
  batch :: Batch
  forkId :: uint64

text \<open>
  Lines 49-65: \<open>tx\<close> and \<open>receipt\<close> are the last transaction of the block and its
  receipt, and stay nil (with the zero hash) when the block has no transaction.
\<close>

definition lastTransaction ::
  "env \<Rightarrow> L2Block \<Rightarrow> run + (Transaction option \<times> Receipt option \<times> hash)" where
  "lastTransaction env blk =
     (if length (Transactions blk) > 0 then
        (let t = Transactions blk ! (length (Transactions blk) - 1) in
         case GetTransactionReceipt (st env) (tx_Hash t) of
           Inl err \<Rightarrow> fail err
         | Inr r \<Rightarrow> Inr (Some t, Some r, tx_Hash t))
      else Inr (None, None, zeroHash))"

text \<open>
  Lines 69-83, one round of the loop per transaction of the block (the fourth argument is
  what is left of \<open>l2Block.Transactions()\<close>): the transaction itself is appended to
  \<open>txsToEncode\<close>, the percentage is computed from \<open>tx\<close> and \<open>receipt\<close>.
\<close>

fun encodingInputs ::
  "env \<Rightarrow> Transaction option \<Rightarrow> Receipt option \<Rightarrow> Transaction list \<Rightarrow>
   Transaction list \<Rightarrow> uint8 list \<Rightarrow> run + (Transaction list \<times> uint8 list)" where
  "encodingInputs env txPtr receiptPtr [] txs eff = Inr (txs, eff)"
| "encodingInputs env txPtr receiptPtr (t # rest) txs eff =
     (case txPtr of
        None \<Rightarrow> panics NilPointerDereference
      | Some lastTx \<Rightarrow>
     (case receiptPtr of
        None \<Rightarrow> panics NilPointerDereference
      | Some lastReceipt \<Rightarrow>
     (case CalculateEffectiveGasPricePercentage (cd env)
             (tx_GasPrice lastTx) (EffectiveGasPrice lastReceipt) of
        Inr egpPercentage \<Rightarrow>
          encodingInputs env txPtr receiptPtr rest (txs @ [t]) (eff @ [egpPercentage])
      | Inl err \<Rightarrow>
          if errors_Is err ErrEffectiveGasPriceEmpty
          then encodingInputs env txPtr receiptPtr rest (txs @ [t])
                 (eff @ [MaxEffectivePercentage (cd env)])
          else fail err)))"

definition prologue :: "env \<Rightarrow> uint64 \<Rightarrow> run + frame" where
  "prologue env blockNumber =
     (case GetL2BlockByNumber (st env) blockNumber of
        Inl err \<Rightarrow> fail err
      | Inr blk \<Rightarrow>
     (let previousL2BlockNumber = (if blockNumber > 0 then blockNumber - 1 else 0) in
      case GetL2BlockByNumber (st env) previousL2BlockNumber of
        Inl err \<Rightarrow> fail err
      | Inr prev \<Rightarrow>
     (case lastTransaction env blk of
        Inl stop \<Rightarrow> Inl stop
      | Inr (txPtr, receiptPtr, h) \<Rightarrow>
     (case encodingInputs env txPtr receiptPtr (Transactions blk) [] [] of
        Inl stop \<Rightarrow> Inl stop
      | Inr (txs, eff) \<Rightarrow>
     (case GetBatchByL2BlockNumber (st env) (NumberU64 blk) of
        Inl err \<Rightarrow> fail err
      | Inr b \<Rightarrow>
          Inr \<lparr> l2Block = blk, previousL2Block = prev, oldStateRoot = Root prev,
                tx = txPtr, receipt = receiptPtr, transactionHash = h,
                txsToEncode = txs, effectivePercentage = eff,
                batch = b, forkId = GetForkIDByBatchNumber (st env) (BatchNumber b) \<rparr>)))))"

subsection \<open>Lines 95-174: the pre-boundary path\<close>

definition traceConfigRequest :: "env \<Rightarrow> TraceConfig \<Rightarrow> hash \<Rightarrow> executor_TraceConfig" where
  "traceConfigRequest env traceConfig h =
     (let r0 = \<lparr> TxHashToGenerateFullTrace = h,
                 req_DisableStorage = cFalse, req_DisableStack = cFalse,
                 req_EnableMemory = cTrue, req_EnableReturnData = cTrue \<rparr>
      in if IsDefaultTracer (tr env) traceConfig then
           (let r1 = (if DisableStorage traceConfig then r0\<lparr>req_DisableStorage := cTrue\<rparr> else r0);
                r2 = (if DisableStack traceConfig then r1\<lparr>req_DisableStack := cTrue\<rparr> else r1);
                r3 = (if \<not> EnableMemory traceConfig then r2\<lparr>req_EnableMemory := cFalse\<rparr> else r2);
                r4 = (if \<not> EnableReturnData traceConfig
                      then r3\<lparr>req_EnableReturnData := cFalse\<rparr> else r3)
            in r4)
         else r0)"

text \<open>Lines 122-144: the encoded payload and the request built around it.\<close>

definition processBatchRequest ::
  "env \<Rightarrow> TraceConfig \<Rightarrow> frame \<Rightarrow> run + (bytes \<times> ProcessBatchRequest)" where
  "processBatchRequest env traceConfig fr =
     (case EncodeTransactions (cd env) (txsToEncode fr) (effectivePercentage fr) (forkId fr) of
        Inl err \<Rightarrow> fail err
      | Inr batchL2Data \<Rightarrow>
          Inr (batchL2Data,
               \<lparr> OldBatchNum = BatchNumber (batch fr) - 1,
                 OldStateRoot = oldStateRoot fr,
                 OldAccInputHash = AccInputHash (batch fr),
                 BatchL2Data = batchL2Data,
                 Coinbase = Address_String (lib env) (batch_Coinbase (batch fr)),
                 UpdateMerkleTree = cFalse,
                 ChainId = cfg_ChainID (st env),
                 ForkId = forkId fr,
                 req_TraceConfig = traceConfigRequest env traceConfig (transactionHash fr),
                 ContextId = uuid_NewString (lib env),
                 GlobalExitRoot = batch_GlobalExitRoot (batch fr),
                 EthTimestamp = Timestamp_Unix (batch fr) \<rparr>))"

text \<open>
  \<open>err != nil && !errors.Is(err, ErrInvalidData)\<close>, the test on the error of the
  decode that only feeds the text logger.
\<close>

definition fatalDecodeError :: "error option \<Rightarrow> bool" where
  "fatalDecodeError err =
     (case err of None \<Rightarrow> False | Some e \<Rightarrow> \<not> errors_Is e ErrInvalidData)"

text \<open>\<open>convertedResponse.BlockResponses[0].TransactionResponses\<close>.\<close>

definition firstBlockResponses ::
  "ProcessBatchResponse \<Rightarrow> run + ProcessTransactionResponse list" where
  "firstBlockResponses convertedResponse =
     (case BlockResponses convertedResponse of
        [] \<Rightarrow> panics IndexOutOfRange
      | b # _ \<Rightarrow> Inr (TransactionResponses b))"

text \<open>Lines 169-173.\<close>

definition convertV1 ::
  "env \<Rightarrow> executor_ProcessBatchResponse \<Rightarrow> run + ProcessTransactionResponse list" where
  "convertV1 env processBatchResponse =
     (case convertToProcessBatchResponse (ex env) processBatchResponse of
        Inl err \<Rightarrow> fail err
      | Inr convertedResponse \<Rightarrow> firstBlockResponses convertedResponse)"

text \<open>Lines 146-173: the call of the executor, the audit entry, the decode for logging.\<close>

definition executeV1 ::
  "env \<Rightarrow> frame \<Rightarrow> bytes \<Rightarrow> ProcessBatchRequest \<Rightarrow> run + ProcessTransactionResponse list" where
  "executeV1 env fr batchL2Data req =
     (case ProcessBatch (ex env) req of
        Inl err \<Rightarrow> fail err
      | Inr processBatchResponse \<Rightarrow>
          if Error processBatchResponse \<noteq> EXECUTOR_ERROR_NO_ERROR (ex env)
          then Inl (Return [] (ExecutorErr (ex env) (Error processBatchResponse)),
                    [LogExecutorError (Error processBatchResponse) req])
          else (case DecodeTxs (cd env) batchL2Data (forkId fr) of
                  (txs, err) \<Rightarrow>
                    if fatalDecodeError err then Inl (Return [] err, [])
                    else convertV1 env processBatchResponse))"

definition pathV1 ::
  "env \<Rightarrow> TraceConfig \<Rightarrow> frame \<Rightarrow> run + ProcessTransactionResponse list" where
  "pathV1 env traceConfig fr =
     (case processBatchRequest env traceConfig fr of
        Inl stop \<Rightarrow> Inl stop
      | Inr (batchL2Data, req) \<Rightarrow> executeV1 env fr batchL2Data req)"


subsection \<open>Lines 174-331: the post-boundary path\<close>

definition traceConfigRequestV2 ::
  "env \<Rightarrow> TraceConfig \<Rightarrow> hash \<Rightarrow> executor_TraceConfigV2" where
  "traceConfigRequestV2 env traceConfig h =
     (let r0 = \<lparr> TxHashToGenerateFullTrace_V2 = h,
                 req_DisableStorage_V2 = cFalse, req_DisableStack_V2 = cFalse,
                 req_EnableMemory_V2 = cTrue, req_EnableReturnData_V2 = cTrue \<rparr>
      in if IsDefaultTracer (tr env) traceConfig then
           (let r1 = (if DisableStorage traceConfig
                      then r0\<lparr>req_DisableStorage_V2 := cTrue\<rparr> else r0);
                r2 = (if DisableStack traceConfig
                      then r1\<lparr>req_DisableStack_V2 := cTrue\<rparr> else r1);
                r3 = (if \<not> EnableMemory traceConfig
                      then r2\<lparr>req_EnableMemory_V2 := cFalse\<rparr> else r2);
                r4 = (if \<not> EnableReturnData traceConfig
                      then r3\<lparr>req_EnableReturnData_V2 := cFalse\<rparr> else r3)
            in r4)
         else r0)"

text \<open>Line 205: \<open>isInjectedTx := l2Block.NumberU64() == 1\<close>.\<close>

definition isInjectedTx :: "frame \<Rightarrow> bool" where
  "isInjectedTx fr = (NumberU64 (l2Block fr) = 1)"

text \<open>
  Lines 207-245, returning \<open>(transactions, batchL2Data)\<close>. The guard of line 228 compares
  with \<open>uint64(len(rawBatch.Blocks)-1)\<close>, the conversion of a signed integer; its
  \<open>return nil, err\<close> returns the \<open>err\<close> of the else block, which is nil once line 221 has
  been passed. Line 234 indexes the slice and panics out of range.
\<close>

definition payloadV2 :: "env \<Rightarrow> frame \<Rightarrow> run + (bytes \<times> bytes)" where
  "payloadV2 env fr =
     (if isInjectedTx fr then Inr ([] @ batch_BatchL2Data (batch fr), [])
      else
        (case DecodeBatchV2 (cd env) (batch_BatchL2Data (batch fr)) of
           Inl err \<Rightarrow> fail err
         | Inr rawBatch \<Rightarrow>
        (case GetFirstL2BlockNumberForBatchNumber (st env) (BatchNumber (batch fr)) of
           Inl err \<Rightarrow> fail err
         | Inr firstBlockNumberForBatch \<Rightarrow>
        (let rawL2BlockIndex = NumberU64 (l2Block fr) - firstBlockNumberForBatch in
         if rawL2BlockIndex > (word_of_int (int (length (Blocks rawBatch)) - 1) :: uint64)
         then Inl (Return [] None, [])
         else if \<not> unat rawL2BlockIndex < length (Blocks rawBatch)
         then panics IndexOutOfRange
         else
           (let rawL2Block = Blocks rawBatch ! unat rawL2BlockIndex;
                deltaTimestamp =
                  (ucast (block_Time (l2Block fr) - block_Time (previousL2Block fr)) :: uint32);
                transactions =
                  BuildChangeL2Block (cd env) deltaTimestamp (IndexL1InfoTree rawL2Block)
            in case EncodeTransactions (cd env) (txsToEncode fr) (effectivePercentage fr)
                      (forkId fr) of
                 Inl err \<Rightarrow> fail err
               | Inr batchL2Data \<Rightarrow> Inr (transactions @ batchL2Data, batchL2Data))))))"

text \<open>Lines 293-297: one entry of the request's \<open>L1InfoTreeData\<close>.\<close>

definition toExecutorL1Data :: "uint32 \<times> L1DataV2 \<Rightarrow> uint32 \<times> executor_L1DataV2" where
  "toExecutorL1Data kv =
     (fst kv, \<lparr> x_GlobalExitRoot = l1_GlobalExitRoot (snd kv),
                x_BlockHashL1 = l1_BlockHashL1 (snd kv),
                x_MinTimestamp = l1_MinTimestamp (snd kv) \<rparr>)"

text \<open>
  Lines 247-300. A Go map is the list of its entries (keys distinct); the fields the
  literal of line 247 leaves out hold their zero values.
\<close>

definition processBatchRequestV2 ::
  "env \<Rightarrow> TraceConfig \<Rightarrow> frame \<Rightarrow> bytes \<Rightarrow> run + ProcessBatchRequestV2" where
  "processBatchRequestV2 env traceConfig fr transactions =
     (let req = \<lparr> OldBatchNum_V2 = BatchNumber (batch fr) - 1,
                  OldStateRoot_V2 = oldStateRoot fr,
                  OldAccInputHash_V2 = AccInputHash (batch fr),
                  BatchL2Data_V2 = transactions,
                  Coinbase_V2 = Address_String (lib env) (block_Coinbase (l2Block fr)),
                  UpdateMerkleTree_V2 = cFalse,
                  ChainId_V2 = cfg_ChainID (st env),
                  ForkId_V2 = forkId fr,
                  req_TraceConfig_V2 = traceConfigRequestV2 env traceConfig (transactionHash fr),
                  ContextId_V2 = uuid_NewString (lib env),
                  L1InfoRoot = GetMockL1InfoRoot (cd env),
                  TimestampLimit = word_of_int (now_TimestampLimit (lib env)),
                  SkipFirstChangeL2Block = cFalse,
                  SkipWriteBlockInfoRoot = cTrue,
                  ForcedBlockhashL1 = [],
                  SkipVerifyL1InfoRoot = 0,
                  L1InfoTreeData = [] \<rparr>
      in if isInjectedTx fr then
           (case GetVirtualBatch (st env) (BatchNumber (batch fr)) of
              Inl err \<Rightarrow> fail err
            | Inr virtualBatch \<Rightarrow>
           (case GetBlockByNumber (st env) (vb_BlockNumber virtualBatch) of
              Inl err \<Rightarrow> fail err
            | Inr l1Block \<Rightarrow>
                Inr (req\<lparr> ForcedBlockhashL1 := BlockHash l1Block,
                          SkipVerifyL1InfoRoot := 1 \<rparr>)))
         else
           (case GetL1InfoTreeDataFromBatchL2Data (st env) transactions of
              Inl err \<Rightarrow> fail err
            | Inr l1InfoTreeData \<Rightarrow>
                if length l1InfoTreeData > 0
                then Inr (req\<lparr> L1InfoTreeData := map toExecutorL1Data l1InfoTreeData,
                               SkipVerifyL1InfoRoot := cTrue \<rparr>)
                else Inr req))"

text \<open>Lines 326-330.\<close>

definition convertV2 ::
  "env \<Rightarrow> executor_ProcessBatchResponseV2 \<Rightarrow> run + ProcessTransactionResponse list" where
  "convertV2 env processBatchResponseV2 =
     (case convertToProcessBatchResponseV2 (ex env) processBatchResponseV2 of
        Inl err \<Rightarrow> fail err
      | Inr convertedResponse \<Rightarrow> firstBlockResponses convertedResponse)"

text \<open>Lines 302-330.\<close>

definition executeV2 ::
  "env \<Rightarrow> frame \<Rightarrow> bytes \<Rightarrow> ProcessBatchRequestV2 \<Rightarrow>
   run + ProcessTransactionResponse list" where
  "executeV2 env fr batchL2Data req =
     (case ProcessBatchV2 (ex env) req of
        Inl err \<Rightarrow> fail err
      | Inr processBatchResponseV2 \<Rightarrow>
          if Error processBatchResponseV2 \<noteq> EXECUTOR_ERROR_NO_ERROR (ex env)
          then Inl (Return [] (ExecutorErr (ex env) (Error processBatchResponseV2)),
                    [LogExecutorErrorV2 (Error processBatchResponseV2) req])
          else if \<not> isInjectedTx fr then
            (case DecodeTxs (cd env) batchL2Data (forkId fr) of
               (txs, err) \<Rightarrow>
                 if fatalDecodeError err then Inl (Return [] err, [])
                 else convertV2 env processBatchResponseV2)
          else convertV2 env processBatchResponseV2)"

definition pathV2 ::
  "env \<Rightarrow> TraceConfig \<Rightarrow> frame \<Rightarrow> run + ProcessTransactionResponse list" where
  "pathV2 env traceConfig fr =
     (case payloadV2 env fr of
        Inl stop \<Rightarrow> Inl stop
      | Inr (transactions, batchL2Data) \<Rightarrow>
     (case processBatchRequestV2 env traceConfig fr transactions of
        Inl stop \<Rightarrow> Inl stop
      | Inr req \<Rightarrow> executeV2 env fr batchL2Data req))"


subsection \<open>Lines 333-462: the count check and the results\<close>

text \<open>
  Lines 384-448 after the default tracer: the chain of tracer constructors. A constructor's
  error is rendered into a new error; \<open>*traceConfig.Tracer\<close> dereferences a pointer.
\<close>

definition newTracer :: "env \<Rightarrow> TraceConfig \<Rightarrow> tracers_Context \<Rightarrow> run + tracers_Tracer" where
  "newTracer env traceConfig tracerContext =
     (if Is4ByteTracer (tr env) traceConfig then
        (case NewFourByteTracer (tr env) tracerContext (TracerConfig traceConfig) of
           Inl err \<Rightarrow> fail (Errorf ''failed to create 4byteTracer, err: %v'' (Some err))
         | Inr tracer \<Rightarrow> Inr tracer)
      else if IsCallTracer (tr env) traceConfig then
        (case NewCallTracer (tr env) tracerContext (TracerConfig traceConfig) of
           Inl err \<Rightarrow> fail (Errorf ''failed to create callTracer, err: %v'' (Some err))
         | Inr tracer \<Rightarrow> Inr tracer)
      else if IsFlatCallTracer (tr env) traceConfig then
        (case NewFlatCallTracer (tr env) tracerContext (TracerConfig traceConfig) of
           Inl err \<Rightarrow> fail (Errorf ''failed to create flatCallTracer, err: %v'' (Some err))
         | Inr tracer \<Rightarrow> Inr (SetFlatCallTracerLimit (tr env) tracer (Limit traceConfig)))
      else if IsNoopTracer (tr env) traceConfig then
        (case NewNoopTracer (tr env) tracerContext (TracerConfig traceConfig) of
           Inl err \<Rightarrow> fail (Errorf ''failed to create noopTracer, err: %v'' (Some err))
         | Inr tracer \<Rightarrow> Inr tracer)
      else if IsPrestateTracer (tr env) traceConfig then
        (case NewPrestateTracer (tr env) tracerContext (TracerConfig traceConfig) of
           Inl err \<Rightarrow> fail (Errorf ''failed to create prestateTracer, err: %v'' (Some err))
         | Inr tracer \<Rightarrow> Inr tracer)
      else if IsJSCustomTracer (tr env) traceConfig then
        (case Tracer traceConfig of
           None \<Rightarrow> panics NilPointerDereference
         | Some code \<Rightarrow>
        (case NewJsTracer (tr env) code tracerContext (TracerConfig traceConfig) of
           Inl err \<Rightarrow> fail (Errorf ''failed to create jsTracer, err: %v'' (Some err))
         | Inr tracer \<Rightarrow> Inr tracer))
      else fail (Errorf ''invalid tracer: %v, err: %v'' None))"

text \<open>
  Lines 355-374: the instrumentation context of one result. \<open>t\<close> is what \<open>tx\<close> points
  to, \<open>result\<close> the execution result built from the response at hand.
\<close>

definition instrumentationContext ::
  "env \<Rightarrow> frame \<Rightarrow> Transaction \<Rightarrow> address \<Rightarrow> ExecutionResult \<Rightarrow> Context" where
  "instrumentationContext env fr t senderAddress result =
     (let context = \<lparr> ctx_Type = [],
                      ctx_From = Address_String (lib env) senderAddress,
                      ctx_To = [],
                      ctx_Input = tx_Data t,
                      ctx_Gas = tx_Gas t,
                      ctx_Value = tx_Value t,
                      ctx_Output = ReturnValue result,
                      ctx_GasPrice = BigInt_String (lib env) (tx_GasPrice t),
                      ctx_OldStateRoot = oldStateRoot fr,
                      ctx_Time = word_of_int (now_endTime (lib env) - now_startTime (lib env)),
                      ctx_GasUsed = GasUsed result \<rparr>
      in case tx_To t of
           None \<Rightarrow> context\<lparr> ctx_Type := ''CREATE'',
                             ctx_To := Address_Hex (lib env) (CreateAddress result) \<rparr>
         | Some target \<Rightarrow> context\<lparr> ctx_Type := ''CALL'',
                                    ctx_To := Address_Hex (lib env) target \<rparr>)"

text \<open>Lines 340-348.\<close>

definition executionResult :: "ProcessTransactionResponse \<Rightarrow> ExecutionResult" where
  "executionResult response =
     \<lparr> CreateAddress = response_CreateAddress response,
       GasLeft = response_GasLeft response,
       GasUsed = response_GasUsed response,
       ReturnValue = response_ReturnValue response,
       StateRoot = response_StateRoot response,
       result_FullTrace = response_FullTrace response,
       result_Err = RomError response,
       TraceResult = [] \<rparr>"

text \<open>Lines 339-461, the body of the loop for one response.\<close>

definition traceResponse ::
  "env \<Rightarrow> TraceConfig \<Rightarrow> frame \<Rightarrow> ProcessTransactionResponse \<Rightarrow> run + ExecutionResult" where
  "traceResponse env traceConfig fr response =
     (let result0 = executionResult response in
      case tx fr of
        None \<Rightarrow> panics NilPointerDereference
      | Some t \<Rightarrow>
     (case GetSender (cd env) t of
        Inl err \<Rightarrow> fail err
      | Inr senderAddress \<Rightarrow>
     (let context = instrumentationContext env fr t senderAddress result0;
          result = result0\<lparr> result_FullTrace :=
                     (result_FullTrace result0)\<lparr> trace_Context := context \<rparr> \<rparr>
      in case BigInt_SetString (lib env) (ctx_GasPrice context) of
           None \<Rightarrow> fail (Errorf ''failed to parse gasPrice'' None)
         | Some gasPrice \<Rightarrow>
     (case receipt fr of
        None \<Rightarrow> panics NilPointerDereference
      | Some r \<Rightarrow>
     (let tracerContext = \<lparr> tc_BlockHash = receipt_BlockHash r,
                            tc_BlockNumber = receipt_BlockNumber r,
                            tc_TxIndex = receipt_TransactionIndex r,
                            tc_TxHash = transactionHash fr \<rparr>
      in if IsDefaultTracer (tr env) traceConfig then
           (let structLoggerCfg = \<lparr> sl_EnableMemory = EnableMemory traceConfig,
                                    sl_DisableStack = DisableStack traceConfig,
                                    sl_DisableStorage = DisableStorage traceConfig,
                                    sl_EnableReturnData = EnableReturnData traceConfig \<rparr>
            in case ParseTrace (tr env) structLoggerCfg result r of
                 Inl err \<Rightarrow> fail err
               | Inr traceResult \<Rightarrow> Inr (result\<lparr> TraceResult := traceResult \<rparr>))
         else
           (case newTracer env traceConfig tracerContext of
              Inl stop \<Rightarrow> Inl stop
            | Inr tracer \<Rightarrow>
           (let evm = \<lparr> evm_BlockNumber = 1, evm_GasPrice = gasPrice,
                        fakeDB_stateRoot = batch_StateRoot (batch fr),
                        evm_Debug = True, evm_Tracer = tracer \<rparr>
            in case buildTrace (tr env) evm result tracer of
                 Inl err \<Rightarrow>
                   fail (Errorf ''failed parse the trace using the tracer: %v'' (Some err))
               | Inr traceResult \<Rightarrow> Inr (result\<lparr> TraceResult := traceResult \<rparr>))))))))"

text \<open>\<open>for _, response := range responses\<close>, appending to \<open>results\<close>.\<close>

fun traceResponses ::
  "env \<Rightarrow> TraceConfig \<Rightarrow> frame \<Rightarrow> ProcessTransactionResponse list \<Rightarrow>
   ExecutionResult list \<Rightarrow> run + ExecutionResult list" where
  "traceResponses env traceConfig fr [] results = Inr results"
| "traceResponses env traceConfig fr (response # rest) results =
     (case traceResponse env traceConfig fr response of
        Inl stop \<Rightarrow> Inl stop
      | Inr result \<Rightarrow> traceResponses env traceConfig fr rest (results @ [result]))"

text \<open>Lines 93-95 and 331: the responses of the path the fork id selects.\<close>

definition executorResponses ::
  "env \<Rightarrow> TraceConfig \<Rightarrow> frame \<Rightarrow> run + ProcessTransactionResponse list" where
  "executorResponses env traceConfig fr =
     (if forkId fr < FORKID_ETROG (cd env) then pathV1 env traceConfig fr
      else pathV2 env traceConfig fr)"

text \<open>Lines 333-462.\<close>

definition results :: "env \<Rightarrow> TraceConfig \<Rightarrow> frame \<Rightarrow> ProcessTransactionResponse list \<Rightarrow> run" where
  "results env traceConfig fr responses =
     (if length responses \<noteq> length (Transactions (l2Block fr))
      then (Return [] (Some (Errorf ''tx hash not found in executor response'' None)), [])
      else (case traceResponses env traceConfig fr responses [] of
              Inl stop \<Rightarrow> stop
            | Inr rs \<Rightarrow> (Return rs None, [])))"

definition DebugBlock :: "env \<Rightarrow> uint64 \<Rightarrow> TraceConfig \<Rightarrow> run" where
  "DebugBlock env blockNumber traceConfig =
     (case prologue env blockNumber of
        Inl stop \<Rightarrow> stop
      | Inr fr \<Rightarrow>
     (case executorResponses env traceConfig fr of
        Inl stop \<Rightarrow> stop
      | Inr responses \<Rightarrow> results env traceConfig fr responses))"


text \<open>
  The percentage the loop of lines 71-83 computes from \<open>tx\<close> and \<open>receipt\<close>: the value of
  \<open>CalculateEffectiveGasPricePercentage\<close>, or the maximum when it reports an error that
  does not end the call.
\<close>

definition percentageOf :: "env \<Rightarrow> Transaction \<Rightarrow> Receipt \<Rightarrow> uint8" where
  "percentageOf env t r =
     (case CalculateEffectiveGasPricePercentage (cd env) (tx_GasPrice t) (EffectiveGasPrice r) of
        Inr p \<Rightarrow> p
      | Inl err \<Rightarrow> MaxEffectivePercentage (cd env))"

section \<open>A small chain on which the theorems are exercised\<close>

text \<open>
  Four blocks in one batch. Block 2 holds a contract creation followed by a call; the
  stored batch payload decodes to a single raw block, the one of block 2, so block 3 has
  no raw block. The collaborators are the simplest functions of the right type: the
  encoder writes one byte per transaction (its percentage), the boundary transaction is a
  marker byte followed by the two values it is built from, the executor answers with
  the payload it was sent and the conversion yields one response per byte after the
  boundary transaction. The sender of a transaction is read off its signature.
\<close>

definition txI :: Transaction where
  "txI = \<lparr> tx_Hash = [9], tx_To = Some [0xBB], tx_Data = [], tx_Gas = 21000, tx_Value = 0,
           tx_GasPrice = 10, tx_Signature = [0xA] \<rparr>"

definition txA :: Transaction where
  "txA = \<lparr> tx_Hash = [1], tx_To = None, tx_Data = [0x60], tx_Gas = 100000, tx_Value = 0,
           tx_GasPrice = 10, tx_Signature = [0xA] \<rparr>"

definition txB :: Transaction where
  "txB = \<lparr> tx_Hash = [2], tx_To = Some [0xBB], tx_Data = [0x12], tx_Gas = 21000, tx_Value = 5,
           tx_GasPrice = 20, tx_Signature = [0xB] \<rparr>"

definition txC :: Transaction where
  "txC = \<lparr> tx_Hash = [3], tx_To = Some [0xBB], tx_Data = [0x34], tx_Gas = 21000, tx_Value = 0,
           tx_GasPrice = 10, tx_Signature = [0xA] \<rparr>"

definition block0 :: L2Block where
  "block0 = \<lparr> NumberU64 = 0, block_Time = 1000, block_Coinbase = [0xC0], Root = [0xF0],
              Transactions = [] \<rparr>"

definition block1 :: L2Block where
  "block1 = \<lparr> NumberU64 = 1, block_Time = 1010, block_Coinbase = [0xC0], Root = [0xF1],
              Transactions = [txI] \<rparr>"

definition block2 :: L2Block where
  "block2 = \<lparr> NumberU64 = 2, block_Time = 1020, block_Coinbase = [0xC0], Root = [0xF2],
              Transactions = [txA, txB] \<rparr>"

definition block3 :: L2Block where
  "block3 = \<lparr> NumberU64 = 3, block_Time = 1030, block_Coinbase = [0xC0], Root = [0xF3],
              Transactions = [txC] \<rparr>"

definition batch1 :: Batch where
  "batch1 = \<lparr> BatchNumber = 1, AccInputHash = [7], batch_GlobalExitRoot = [8],
              batch_Coinbase = [0xC0], Timestamp_Unix = 1000, batch_StateRoot = [0xF3],
              batch_BatchL2Data = [11, 0, 0, 50] \<rparr>"

definition receipt1 :: Receipt where
  "receipt1 = \<lparr> receipt_BlockHash = [0xB1], receipt_BlockNumber = 2,
                receipt_TransactionIndex = 1, EffectiveGasPrice = Some 10 \<rparr>"

definition storage0 :: storage where
  "storage0 =
     \<lparr> GetL2BlockByNumber = (\<lambda>n. if n = 0 then Inr block0 else if n = 1 then Inr block1
                                 else if n = 2 then Inr block2 else if n = 3 then Inr block3
                                 else Inl (Err ''state: not found'')),
       GetTransactionReceipt = (\<lambda>h. Inr receipt1),
       GetBatchByL2BlockNumber = (\<lambda>n. Inr batch1),
       GetForkIDByBatchNumber = (\<lambda>n. 6),
       GetFirstL2BlockNumberForBatchNumber = (\<lambda>n. Inr 2),
       GetVirtualBatch = (\<lambda>n. Inr \<lparr> vb_BlockNumber = 77 \<rparr>),
       GetBlockByNumber = (\<lambda>n. Inr \<lparr> BlockHash = [0xEE] \<rparr>),
       GetL1InfoTreeDataFromBatchL2Data =
         (\<lambda>d. Inr [(4, \<lparr> l1_GlobalExitRoot = [8], l1_BlockHashL1 = [0xEE],
                          l1_MinTimestamp = 900 \<rparr>)]),
       cfg_ChainID = 195 \<rparr>"

definition codec0 :: codec where
  "codec0 =
     \<lparr> CalculateEffectiveGasPricePercentage =
         (\<lambda>gasPrice effectiveGasPrice.
            case effectiveGasPrice of
              None \<Rightarrow> Inl ErrEffectiveGasPriceEmpty
            | Some p \<Rightarrow> Inr (word_of_int gasPrice)),
       MaxEffectivePercentage = 255,
       FORKID_ETROG = 7,
       EncodeTransactions =
         (\<lambda>txs eff f. if length txs = length eff then Inr eff
                       else Inl (Err ''invalid input'')),
       DecodeTxs = (\<lambda>d f. ([], None)),
       DecodeBatchV2 =
         (\<lambda>d. Inr \<lparr> Blocks = [\<lparr> IndexL1InfoTree = 4, raw_Transactions = [txA, txB] \<rparr>] \<rparr>),
       BuildChangeL2Block = (\<lambda>deltaTimestamp index. [11, ucast deltaTimestamp, ucast index]),
       GetMockL1InfoRoot = [0x4D],
       GetSender = (\<lambda>t. Inr (tx_Signature t)) \<rparr>"

definition response0 :: "uint8 \<Rightarrow> ProcessTransactionResponse" where
  "response0 b =
     \<lparr> response_CreateAddress = [0xCA], response_GasLeft = 0, response_GasUsed = ucast b,
       response_ReturnValue = [], response_StateRoot = [b],
       response_FullTrace =
         \<lparr> trace_Context =
             \<lparr> ctx_Type = [], ctx_From = [], ctx_To = [], ctx_Input = [], ctx_Gas = 0,
               ctx_Value = 0, ctx_Output = [], ctx_GasPrice = [], ctx_OldStateRoot = [],
               ctx_Time = 0, ctx_GasUsed = 0 \<rparr>,
           Steps = [] \<rparr>,
       RomError = None \<rparr>"

definition executor0 :: executorClient where
  "executor0 =
     \<lparr> ProcessBatch = (\<lambda>req. Inr \<lparr> Error = 0, Body = BatchL2Data req \<rparr>),
       ProcessBatchV2 = (\<lambda>req. Inr \<lparr> Error = 0, Body = drop 3 (BatchL2Data_V2 req) \<rparr>),
       EXECUTOR_ERROR_NO_ERROR = 0,
       ExecutorErr = (\<lambda>c. if c = 0 then None else Some (Err ''executor error'')),
       convertToProcessBatchResponse =
         (\<lambda>r. Inr \<lparr> BlockResponses = [\<lparr> TransactionResponses = map response0 (Body r) \<rparr>] \<rparr>),
       convertToProcessBatchResponseV2 =
         (\<lambda>r. Inr \<lparr> BlockResponses = [\<lparr> TransactionResponses = map response0 (Body r) \<rparr>] \<rparr>) \<rparr>"

definition tracing0 :: tracing where
  "tracing0 =
     \<lparr> IsDefaultTracer = (\<lambda>c. Tracer c = None \<or> Tracer c = Some []),
       Is4ByteTracer = (\<lambda>c. Tracer c = Some ''4byteTracer''),
       IsCallTracer = (\<lambda>c. Tracer c = Some ''callTracer''),
       IsFlatCallTracer = (\<lambda>c. Tracer c = Some ''flatCallTracer''),
       IsNoopTracer = (\<lambda>c. Tracer c = Some ''noopTracer''),
       IsPrestateTracer = (\<lambda>c. Tracer c = Some ''prestateTracer''),
       IsJSCustomTracer = (\<lambda>c. False),
       ParseTrace = (\<lambda>c r rc. Inr [1]),
       NewFourByteTracer = (\<lambda>c k. Inr 4),
       NewCallTracer = (\<lambda>c k. Inr 5),
       NewFlatCallTracer = (\<lambda>c k. Inr 6),
       SetFlatCallTracerLimit = (\<lambda>t l. t),
       NewNoopTracer = (\<lambda>c k. Inr 7),
       NewPrestateTracer = (\<lambda>c k. Inr 8),
       NewJsTracer = (\<lambda>s c k. Inr 9),
       buildTrace = (\<lambda>e r t. Inr [2]) \<rparr>"

definition library0 :: library where
  "library0 =
     \<lparr> Address_String = (\<lambda>a. if a = [0xA] then ''0x0a'' else if a = [0xB] then ''0x0b''
                             else ''0x''),
       Address_Hex = (\<lambda>a. if a = [0xBB] then ''0xbb'' else if a = [0xCA] then ''0xca''
                          else ''0x''),
       BigInt_String = (\<lambda>n. if n = 10 then ''10'' else if n = 20 then ''20'' else ''0''),
       BigInt_SetString = (\<lambda>s. if s = ''10'' then Some 10 else if s = ''20'' then Some 20
                               else if s = ''0'' then Some 0 else None),
       now_TimestampLimit = 1700000000,
       now_startTime = 5000,
       now_endTime = 5250,
       uuid_NewString = ''ctx-1'' \<rparr>"

text \<open>The chain under the pre-boundary protocol (fork id 6, boundary 7).\<close>

definition env0 :: env where
  "env0 = \<lparr> st = storage0, cd = codec0, ex = executor0, tr = tracing0, lib = library0 \<rparr>"

text \<open>The same chain under the post-boundary protocol.\<close>

definition envV2 :: env where
  "envV2 = env0\<lparr> st := storage0\<lparr> GetForkIDByBatchNumber := (\<lambda>n. 7) \<rparr> \<rparr>"

text \<open>The default tracer with every toggle set to capture least, and a named tracer with the same toggles.\<close>

definition traceConfig0 :: TraceConfig where
  "traceConfig0 = \<lparr> DisableStorage = True, DisableStack = True, EnableMemory = False,
                    EnableReturnData = False, Tracer = None, TracerConfig = [], Limit = None \<rparr>"

definition traceConfigCall :: TraceConfig where
  "traceConfigCall = traceConfig0\<lparr> Tracer := Some ''callTracer'' \<rparr>"


text \<open>Block 2 as \<open>DebugBlock\<close> sees it after line 91, under either protocol.\<close>

definition frame2 :: frame where
  "frame2 = \<lparr> l2Block = block2, previousL2Block = block1, oldStateRoot = [0xF1],
              tx = Some txB, receipt = Some receipt1, transactionHash = [2],
              txsToEncode = [txA, txB], effectivePercentage = [20, 20],
              batch = batch1, forkId = 6 \<rparr>"

definition frame2V2 :: frame where
  "frame2V2 = frame2\<lparr> forkId := 7 \<rparr>"

text \<open>Blocks 1 and 3 under the post-boundary protocol.\<close>

definition frame1V2 :: frame where
  "frame1V2 = \<lparr> l2Block = block1, previousL2Block = block0, oldStateRoot = [0xF0],
                tx = Some txI, receipt = Some receipt1, transactionHash = [9],
                txsToEncode = [txI], effectivePercentage = [10],
                batch = batch1, forkId = 7 \<rparr>"

definition frame3V2 :: frame where
  "frame3V2 = \<lparr> l2Block = block3, previousL2Block = block2, oldStateRoot = [0xF2],
                tx = Some txC, receipt = Some receipt1, transactionHash = [3],
                txsToEncode = [txC], effectivePercentage = [10],
                batch = batch1, forkId = 7 \<rparr>"

text \<open>Variants of the chain: a collaborator replaced by one that fails or answers otherwise.\<close>

definition withExecutorError :: "env \<Rightarrow> executor_ExecutorError \<Rightarrow> env" where
  "withExecutorError e c =
     e\<lparr> ex := (ex e)\<lparr> ProcessBatch := (\<lambda>req. Inr \<lparr> Error = c, Body = [] \<rparr>),
                       ProcessBatchV2 := (\<lambda>req. Inr \<lparr> Error = c, Body = [] \<rparr>) \<rparr> \<rparr>"

definition withDecodeError :: "env \<Rightarrow> error \<Rightarrow> env" where
  "withDecodeError e err = e\<lparr> cd := (cd e)\<lparr> DecodeTxs := (\<lambda>d f. ([], Some err)) \<rparr> \<rparr>"

definition envNoSender :: env where
  "envNoSender = env0\<lparr> cd := codec0\<lparr> GetSender := (\<lambda>t. Inl (Err ''invalid signature'')) \<rparr> \<rparr>"

definition envShort :: env where
  "envShort =
     env0\<lparr> ex := executor0\<lparr> convertToProcessBatchResponse :=
       (\<lambda>r. Inr \<lparr> BlockResponses = [\<lparr> TransactionResponses = [response0 20] \<rparr>] \<rparr>) \<rparr> \<rparr>"

definition envEmptyBatch :: env where
  "envEmptyBatch = envV2\<lparr> cd := codec0\<lparr> DecodeBatchV2 := (\<lambda>d. Inr \<lparr> Blocks = [] \<rparr>) \<rparr> \<rparr>"

definition envNoAnchor :: env where
  "envNoAnchor =
     envV2\<lparr> st := (st envV2)\<lparr> GetL1InfoTreeDataFromBatchL2Data := (\<lambda>d. Inr []) \<rparr> \<rparr>"

text \<open>
  The requests \<open>DebugBlock\<close> builds on this chain with \<open>traceConfig0\<close>: for block 2 under
  each protocol, and for block 1 under the post-boundary protocol.
\<close>

definition request2 :: ProcessBatchRequest where
  "request2 =
     \<lparr> OldBatchNum = 0, OldStateRoot = [0xF1], OldAccInputHash = [7], BatchL2Data = [20, 20],
       Coinbase = ''0x'', UpdateMerkleTree = 0, ChainId = 195, ForkId = 6,
       req_TraceConfig =
         \<lparr> TxHashToGenerateFullTrace = [2], req_DisableStorage = 1, req_DisableStack = 1,
           req_EnableMemory = 0, req_EnableReturnData = 0 \<rparr>,
       ContextId = ''ctx-1'', GlobalExitRoot = [8], EthTimestamp = 1000 \<rparr>"

definition request2V2 :: ProcessBatchRequestV2 where
  "request2V2 =
     \<lparr> OldBatchNum_V2 = 0, OldStateRoot_V2 = [0xF1], OldAccInputHash_V2 = [7],
       BatchL2Data_V2 = [11, 10, 4, 20, 20], Coinbase_V2 = ''0x'', UpdateMerkleTree_V2 = 0,
       ChainId_V2 = 195, ForkId_V2 = 7,
       req_TraceConfig_V2 =
         \<lparr> TxHashToGenerateFullTrace_V2 = [2], req_DisableStorage_V2 = 1,
           req_DisableStack_V2 = 1, req_EnableMemory_V2 = 0, req_EnableReturnData_V2 = 0 \<rparr>,
       ContextId_V2 = ''ctx-1'', L1InfoRoot = [0x4D], TimestampLimit = 1700000000,
       SkipFirstChangeL2Block = 0, SkipWriteBlockInfoRoot = 1, ForcedBlockhashL1 = [],
       SkipVerifyL1InfoRoot = 1,
       L1InfoTreeData =
         [(4, \<lparr> x_GlobalExitRoot = [8], x_BlockHashL1 = [0xEE], x_MinTimestamp = 900 \<rparr>)] \<rparr>"

definition request1V2 :: ProcessBatchRequestV2 where
  "request1V2 =
     \<lparr> OldBatchNum_V2 = 0, OldStateRoot_V2 = [0xF0], OldAccInputHash_V2 = [7],
       BatchL2Data_V2 = [11, 0, 0, 50], Coinbase_V2 = ''0x'', UpdateMerkleTree_V2 = 0,
       ChainId_V2 = 195, ForkId_V2 = 7,
       req_TraceConfig_V2 =
         \<lparr> TxHashToGenerateFullTrace_V2 = [9], req_DisableStorage_V2 = 1,
           req_DisableStack_V2 = 1, req_EnableMemory_V2 = 0, req_EnableReturnData_V2 = 0 \<rparr>,
       ContextId_V2 = ''ctx-1'', L1InfoRoot = [0x4D], TimestampLimit = 1700000000,
       SkipFirstChangeL2Block = 0, SkipWriteBlockInfoRoot = 1, ForcedBlockhashL1 = [0xEE],
       SkipVerifyL1InfoRoot = 1, L1InfoTreeData = [] \<rparr>"

text \<open>The requests built for block 2 with \<open>traceConfigCall\<close>, under each protocol.\<close>

definition requestCall :: ProcessBatchRequest where
  "requestCall =
     request2\<lparr> req_TraceConfig :=
       \<lparr> TxHashToGenerateFullTrace = [2], req_DisableStorage = 0, req_DisableStack = 0,
         req_EnableMemory = 1, req_EnableReturnData = 1 \<rparr> \<rparr>"

definition requestCallV2 :: ProcessBatchRequestV2 where
  "requestCallV2 =
     request2V2\<lparr> req_TraceConfig_V2 :=
       \<lparr> TxHashToGenerateFullTrace_V2 = [2], req_DisableStorage_V2 = 0,
         req_DisableStack_V2 = 0, req_EnableMemory_V2 = 1, req_EnableReturnData_V2 = 1 \<rparr> \<rparr>"

text \<open>The instrumentation contexts of the results a call returned, in order.\<close>

definition contexts :: "run \<Rightarrow> Context list" where
  "contexts r =
     (case fst r of
        Return rs err \<Rightarrow> map (\<lambda>result. trace_Context (result_FullTrace result)) rs
      | Panic p \<Rightarrow> [])"

section \<open>Properties of the stages\<close>

lemmas chain_defs = env0_def envV2_def storage0_def codec0_def executor0_def tracing0_def
  library0_def block0_def block1_def block2_def block3_def batch1_def receipt1_def
  txI_def txA_def txB_def txC_def traceConfig0_def traceConfigCall_def response0_def
  frame2_def frame2V2_def frame1V2_def frame3V2_def withExecutorError_def withDecodeError_def
  envNoSender_def envShort_def envEmptyBatch_def envNoAnchor_def
  request2_def request2V2_def request1V2_def

lemmas model_defs = DebugBlock_def prologue_def lastTransaction_def executorResponses_def
  pathV1_def pathV2_def processBatchRequest_def executeV1_def convertV1_def convertV2_def
  firstBlockResponses_def fatalDecodeError_def traceConfigRequest_def traceConfigRequestV2_def
  payloadV2_def processBatchRequestV2_def executeV2_def isInjectedTx_def toExecutorL1Data_def
  results_def traceResponse_def newTracer_def instrumentationContext_def executionResult_def
  fail_def panics_def cTrue_def cFalse_def zeroHash_def Let_def
lemma encodingInputs_Some:
  "encodingInputs env (Some t) (Some r) xs txs eff = Inr (txs', eff') \<Longrightarrow>
   txs' = txs @ xs \<and> eff' = eff @ replicate (length xs) (percentageOf env t r)"
proof (induction xs arbitrary: txs eff)
  case Nil
  then show ?case by simp
next
  case (Cons x xs)
  show ?case
  proof (cases "CalculateEffectiveGasPricePercentage (cd env) (tx_GasPrice t) (EffectiveGasPrice r)")
    case (Inl err)
    with Cons.prems have ok: "errors_Is err ErrEffectiveGasPriceEmpty"
      by (auto simp: fail_def split: if_splits)
    with Inl Cons.prems have
      "encodingInputs env (Some t) (Some r) xs (txs @ [x]) (eff @ [MaxEffectivePercentage (cd env)])
         = Inr (txs', eff')" by simp
    from Cons.IH [OF this] Inl show ?thesis
      by (simp add: percentageOf_def replicate_app_Cons_same)
  next
    case (Inr p)
    with Cons.prems have
      "encodingInputs env (Some t) (Some r) xs (txs @ [x]) (eff @ [p]) = Inr (txs', eff')" by simp
    from Cons.IH [OF this] Inr show ?thesis
      by (simp add: percentageOf_def replicate_app_Cons_same)
  qed
qed

lemma lastTransaction_Inr:
  "lastTransaction env blk = Inr (txPtr, receiptPtr, h) \<Longrightarrow>
   (Transactions blk = [] \<and> txPtr = None \<and> receiptPtr = None \<and> h = zeroHash) \<or>
   (Transactions blk \<noteq> [] \<and> txPtr = Some (last (Transactions blk)) \<and>
    (\<exists>r. receiptPtr = Some r \<and>
         GetTransactionReceipt (st env) (tx_Hash (last (Transactions blk))) = Inr r) \<and>
    h = tx_Hash (last (Transactions blk)))"
  by (auto simp: lastTransaction_def Let_def fail_def last_conv_nth split: if_splits sum.splits)

lemma prologue_Inr:
  assumes "prologue env blockNumber = Inr fr"
  shows "GetL2BlockByNumber (st env) blockNumber = Inr (l2Block fr)"
    and "lastTransaction env (l2Block fr) = Inr (tx fr, receipt fr, transactionHash fr)"
    and "encodingInputs env (tx fr) (receipt fr) (Transactions (l2Block fr)) [] []
           = Inr (txsToEncode fr, effectivePercentage fr)"
    and "GetBatchByL2BlockNumber (st env) (NumberU64 (l2Block fr)) = Inr (batch fr)"
    and "forkId fr = GetForkIDByBatchNumber (st env) (BatchNumber (batch fr))"
  using assms
  by (auto simp: prologue_def Let_def fail_def split: sum.splits prod.splits)

lemma prologue_txsToEncode:
  assumes "prologue env blockNumber = Inr fr"
  shows "txsToEncode fr = Transactions (l2Block fr)"
proof (cases "Transactions (l2Block fr) = []")
  case True
  with prologue_Inr(3) [OF assms] show ?thesis by simp
next
  case False
  with lastTransaction_Inr [OF prologue_Inr(2) [OF assms]]
  obtain r where "tx fr = Some (last (Transactions (l2Block fr)))" "receipt fr = Some r" by auto
  with prologue_Inr(3) [OF assms] encodingInputs_Some show ?thesis by fastforce
qed


lemma newTracer_stop:
  "newTracer env traceConfig c = Inl stop \<Longrightarrow>
   (\<exists>e. stop = (Return [] (Some e), [])) \<or> (\<exists>p. stop = (Panic p, []))"
  by (auto simp: newTracer_def fail_def panics_def split: if_splits sum.splits option.splits)

lemma traceResponse_stop:
  "traceResponse env traceConfig fr response = Inl stop \<Longrightarrow>
   (\<exists>e. stop = (Return [] (Some e), [])) \<or> (\<exists>p. stop = (Panic p, []))"
  unfolding traceResponse_def Let_def
  by (auto simp: fail_def panics_def dest: newTracer_stop
           split: if_splits sum.splits option.splits)

lemma traceResponses_stop:
  "traceResponses env traceConfig fr responses acc = Inl stop \<Longrightarrow>
   (\<exists>e. stop = (Return [] (Some e), [])) \<or> (\<exists>p. stop = (Panic p, []))"
proof (induction responses arbitrary: acc)
  case Nil
  then show ?case by simp
next
  case (Cons response rest)
  then show ?case
    by (auto split: sum.splits dest: traceResponse_stop)
qed

lemma traceResponses_Inr:
  "traceResponses env traceConfig fr responses acc = Inr rs \<Longrightarrow>
   \<exists>new. rs = acc @ new \<and>
         list_all2 (\<lambda>response result. traceResponse env traceConfig fr response = Inr result)
           responses new"
proof (induction responses arbitrary: acc)
  case Nil
  then show ?case by simp
next
  case (Cons response rest)
  from Cons.prems obtain result where
    one: "traceResponse env traceConfig fr response = Inr result" and
    more: "traceResponses env traceConfig fr rest (acc @ [result]) = Inr rs"
    by (auto split: sum.splits)
  from Cons.IH [OF more] obtain new where
    "rs = (acc @ [result]) @ new"
    "list_all2 (\<lambda>response result. traceResponse env traceConfig fr response = Inr result) rest new"
    by blast
  with one show ?case by (intro exI [of _ "result # new"]) simp
qed

lemma traceResponse_Inr:
  assumes "traceResponse env traceConfig fr response = Inr result"
  shows "CreateAddress result = response_CreateAddress response"
    and "GasLeft result = response_GasLeft response"
    and "GasUsed result = response_GasUsed response"
    and "ReturnValue result = response_ReturnValue response"
    and "StateRoot result = response_StateRoot response"
    and "result_Err result = RomError response"
  using assms unfolding traceResponse_def Let_def executionResult_def
  by (auto simp: fail_def panics_def split: if_splits sum.splits option.splits)


lemma DebugBlock_V1:
  assumes "prologue env blockNumber = Inr fr"
    and "forkId fr < FORKID_ETROG (cd env)"
    and "processBatchRequest env traceConfig fr = Inr (batchL2Data, req)"
  shows "DebugBlock env blockNumber traceConfig =
           (case executeV1 env fr batchL2Data req of
              Inl stop \<Rightarrow> stop
            | Inr responses \<Rightarrow> results env traceConfig fr responses)"
  using assms by (simp add: DebugBlock_def executorResponses_def pathV1_def)

lemma DebugBlock_V2:
  assumes "prologue env blockNumber = Inr fr"
    and "\<not> forkId fr < FORKID_ETROG (cd env)"
    and "payloadV2 env fr = Inr (transactions, batchL2Data)"
    and "processBatchRequestV2 env traceConfig fr transactions = Inr req"
  shows "DebugBlock env blockNumber traceConfig =
           (case executeV2 env fr batchL2Data req of
              Inl stop \<Rightarrow> stop
            | Inr responses \<Rightarrow> results env traceConfig fr responses)"
  using assms by (simp add: DebugBlock_def executorResponses_def pathV2_def)





text \<open>What the stages compute on the chain.\<close>

lemma prologue_env0_2: "prologue env0 2 = Inr frame2"
  by (simp add: model_defs chain_defs)

lemma prologue_envV2_2: "prologue envV2 2 = Inr frame2V2"
  by (simp add: model_defs chain_defs)

lemma prologue_envV2_1: "prologue envV2 1 = Inr frame1V2"
  by (simp add: model_defs chain_defs)

lemma prologue_envV2_3: "prologue envV2 3 = Inr frame3V2"
  by (simp add: model_defs chain_defs)

lemma request_env0_2: "processBatchRequest env0 traceConfig0 frame2 = Inr ([20, 20], request2)"
  by (simp add: model_defs chain_defs)

lemma payload_envV2_2: "payloadV2 envV2 frame2V2 = Inr ([11, 10, 4, 20, 20], [20, 20])"
  by (simp add: model_defs chain_defs)

lemma request_envV2_2:
  "processBatchRequestV2 envV2 traceConfig0 frame2V2 [11, 10, 4, 20, 20] = Inr request2V2"
  by (simp add: model_defs chain_defs)

lemma payload_envV2_1: "payloadV2 envV2 frame1V2 = Inr ([11, 0, 0, 50], [])"
  by (simp add: model_defs chain_defs)

lemma request_envV2_1:
  "processBatchRequestV2 envV2 traceConfig0 frame1V2 [11, 0, 0, 50] = Inr request1V2"
  by (simp add: model_defs chain_defs)

lemma responses_env0_2:
  "executorResponses env0 traceConfig0 frame2 = Inr [response0 20, response0 20]"
  by (simp add: model_defs chain_defs)

section \<open>The claims\<close>

subsection \<open>C1\<close>

text \<open>
  Claim C1, as the code has it. Once the executor's converted response has yielded its list
  of per-transaction responses: if their number differs from the number of transactions of
  the block, \<open>DebugBlock\<close> returns the error of line 335 and no results. If the numbers are
  equal, the loop of lines 339-461 decides: when every response is traced, \<open>DebugBlock\<close>
  returns one result per transaction, the i-th built from the i-th response; when tracing
  one of them fails (sender recovery, gas-price parse, tracer construction, trace build), it
  stops there with an error or a panic and no results.
\<close>

theorem DebugBlock_result_count:
  assumes "prologue env blockNumber = Inr fr"
    and "executorResponses env traceConfig fr = Inr responses"
  shows "(length responses \<noteq> length (Transactions (l2Block fr)) \<longrightarrow>
            DebugBlock env blockNumber traceConfig =
              (Return [] (Some (Errorf ''tx hash not found in executor response'' None)), []))
       \<and> (length responses = length (Transactions (l2Block fr)) \<longrightarrow>
            (case traceResponses env traceConfig fr responses [] of
               Inl stop \<Rightarrow>
                 DebugBlock env blockNumber traceConfig = stop \<and>
                 ((\<exists>e. stop = (Return [] (Some e), [])) \<or> (\<exists>p. stop = (Panic p, [])))
             | Inr rs \<Rightarrow>
                 DebugBlock env blockNumber traceConfig = (Return rs None, []) \<and>
                 length rs = length (Transactions (l2Block fr)) \<and>
                 (\<forall>i < length rs.
                    traceResponse env traceConfig fr (responses ! i) = Inr (rs ! i) \<and>
                    CreateAddress (rs ! i) = response_CreateAddress (responses ! i) \<and>
                    GasLeft (rs ! i) = response_GasLeft (responses ! i) \<and>
                    GasUsed (rs ! i) = response_GasUsed (responses ! i) \<and>
                    ReturnValue (rs ! i) = response_ReturnValue (responses ! i) \<and>
                    StateRoot (rs ! i) = response_StateRoot (responses ! i) \<and>
                    result_Err (rs ! i) = RomError (responses ! i))))"
proof (intro conjI impI)
  assume "length responses \<noteq> length (Transactions (l2Block fr))"
  with assms show "DebugBlock env blockNumber traceConfig =
      (Return [] (Some (Errorf ''tx hash not found in executor response'' None)), [])"
    by (simp add: DebugBlock_def results_def)
next
  assume eq: "length responses = length (Transactions (l2Block fr))"
  show "case traceResponses env traceConfig fr responses [] of
               Inl stop \<Rightarrow>
                 DebugBlock env blockNumber traceConfig = stop \<and>
                 ((\<exists>e. stop = (Return [] (Some e), [])) \<or> (\<exists>p. stop = (Panic p, [])))
             | Inr rs \<Rightarrow>
                 DebugBlock env blockNumber traceConfig = (Return rs None, []) \<and>
                 length rs = length (Transactions (l2Block fr)) \<and>
                 (\<forall>i < length rs.
                    traceResponse env traceConfig fr (responses ! i) = Inr (rs ! i) \<and>
                    CreateAddress (rs ! i) = response_CreateAddress (responses ! i) \<and>
                    GasLeft (rs ! i) = response_GasLeft (responses ! i) \<and>
                    GasUsed (rs ! i) = response_GasUsed (responses ! i) \<and>
                    ReturnValue (rs ! i) = response_ReturnValue (responses ! i) \<and>
                    StateRoot (rs ! i) = response_StateRoot (responses ! i) \<and>
                    result_Err (rs ! i) = RomError (responses ! i))"
  proof (cases "traceResponses env traceConfig fr responses []")
    case (Inl stop)
    with assms eq traceResponses_stop [OF Inl] show ?thesis
      by (simp add: DebugBlock_def results_def)
  next
    case (Inr rs)
    from traceResponses_Inr [OF Inr] have
      all: "list_all2 (\<lambda>response result. traceResponse env traceConfig fr response = Inr result)
              responses rs" by simp
    then have len: "length rs = length responses" by (simp add: list_all2_lengthD)
    have each: "traceResponse env traceConfig fr (responses ! i) = Inr (rs ! i)"
      if "i < length rs" for i
      using list_all2_nthD2 [OF all, of i] that by simp
    from assms eq Inr have here: "DebugBlock env blockNumber traceConfig = (Return rs None, [])"
      by (simp add: DebugBlock_def results_def)
    have fields:
      "CreateAddress (rs ! i) = response_CreateAddress (responses ! i) \<and>
       GasLeft (rs ! i) = response_GasLeft (responses ! i) \<and>
       GasUsed (rs ! i) = response_GasUsed (responses ! i) \<and>
       ReturnValue (rs ! i) = response_ReturnValue (responses ! i) \<and>
       StateRoot (rs ! i) = response_StateRoot (responses ! i) \<and>
       result_Err (rs ! i) = RomError (responses ! i)"
      if "i < length rs" for i
      using traceResponse_Inr [OF each [OF that]] by simp
    from here Inr len eq each fields show ?thesis
      by simp
  qed
qed

text \<open>On the chain: a conversion that yields one response for the two transactions of block 2, and the unchanged chain.\<close>

theorem DebugBlock_result_count_witness:
  "length [response0 20] \<noteq> length (Transactions (l2Block frame2))
   \<and> DebugBlock envShort 2 traceConfig0 =
       (Return [] (Some (Errorf ''tx hash not found in executor response'' None)), [])
   \<and> length [response0 20, response0 20] = length (Transactions (l2Block frame2))
   \<and> (\<exists>rs. DebugBlock env0 2 traceConfig0 = (Return rs None, []) \<and> length rs = 2 \<and>
             GasUsed (rs ! 0) = response_GasUsed (response0 20) \<and>
             GasUsed (rs ! 1) = response_GasUsed (response0 20))"
proof -
  have p: "prologue envShort 2 = Inr frame2"
    by (simp add: model_defs chain_defs)
  have e: "executorResponses envShort traceConfig0 frame2 = Inr [response0 20]"
    by (simp add: model_defs chain_defs)
  have n: "length [response0 20] \<noteq> length (Transactions (l2Block frame2))"
    by (simp add: chain_defs)
  from DebugBlock_result_count [OF p e] n
  have short: "DebugBlock envShort 2 traceConfig0 =
      (Return [] (Some (Errorf ''tx hash not found in executor response'' None)), [])"
    by blast
  have q: "length [response0 20, response0 20] = length (Transactions (l2Block frame2))"
    by (simp add: chain_defs)
  obtain rs where
    t: "traceResponses env0 traceConfig0 frame2 [response0 20, response0 20] [] = Inr rs"
    by (simp add: model_defs chain_defs)
  from DebugBlock_result_count [OF prologue_env0_2 responses_env0_2] q t
  have full: "DebugBlock env0 2 traceConfig0 = (Return rs None, [])"
    and len: "length rs = 2"
    and used: "\<forall>i<length rs. GasUsed (rs ! i) = response_GasUsed ([response0 20, response0 20] ! i)"
    by (simp_all add: chain_defs)
  from len used have "GasUsed (rs ! 0) = response_GasUsed (response0 20)"
    and "GasUsed (rs ! 1) = response_GasUsed (response0 20)"
    by auto
  with n short q full len show ?thesis by blast
qed

text \<open>
  Claim C1 as stated fails where the counts agree and the sender cannot be recovered: two
  transactions, two responses, and \<open>DebugBlock\<close> returns an error and no results.
\<close>

theorem result_count_counterexample:
  "prologue envNoSender 2 = Inr frame2
   \<and> executorResponses envNoSender traceConfig0 frame2 = Inr [response0 20, response0 20]
   \<and> length [response0 20, response0 20] = length (Transactions (l2Block frame2))
   \<and> DebugBlock envNoSender 2 traceConfig0 = (Return [] (Some (Err ''invalid signature'')), [])"
  by (simp add: model_defs chain_defs)

subsection \<open>C2\<close>

text \<open>
  Claim C2 says that the context of result i is taken from transaction i. The code takes
  it from \<open>tx\<close>, the last transaction of the block (line 54), for every response. On block
  2, whose first transaction creates a contract and is signed by another sender than the
  second, both results carry the context of the second transaction: call kind CALL, its
  sender, its target, its input, gas, value and gas price.
\<close>

theorem last_transaction_context_on_every_result:
  "Transactions block2 = [txA, txB] \<and> tx_To txA = None \<and> tx_To txB = Some [0xBB]
   \<and> GetSender (cd env0) txA = Inr [0xA] \<and> GetSender (cd env0) txB = Inr [0xB]
   \<and> Address_String (lib env0) [0xA] = ''0x0a'' \<and> Address_String (lib env0) [0xB] = ''0x0b''
   \<and> map ctx_Type (contexts (DebugBlock env0 2 traceConfig0)) = [''CALL'', ''CALL'']
   \<and> map ctx_From (contexts (DebugBlock env0 2 traceConfig0)) = [''0x0b'', ''0x0b'']
   \<and> map ctx_To (contexts (DebugBlock env0 2 traceConfig0)) = [''0xbb'', ''0xbb'']
   \<and> map ctx_Input (contexts (DebugBlock env0 2 traceConfig0)) = [tx_Data txB, tx_Data txB]
   \<and> map ctx_Gas (contexts (DebugBlock env0 2 traceConfig0)) = [tx_Gas txB, tx_Gas txB]
   \<and> map ctx_Value (contexts (DebugBlock env0 2 traceConfig0)) = [tx_Value txB, tx_Value txB]
   \<and> map ctx_GasPrice (contexts (DebugBlock env0 2 traceConfig0)) = [''20'', ''20'']
   \<and> tx_Data txA \<noteq> tx_Data txB \<and> tx_Gas txA \<noteq> tx_Gas txB \<and> tx_Value txA \<noteq> tx_Value txB
   \<and> BigInt_String (lib env0) (tx_GasPrice txA) = ''10''"
  by (simp add: contexts_def model_defs chain_defs)

subsection \<open>C3\<close>

text \<open>
  Claim C3 says that an index beyond the decoded raw blocks makes \<open>DebugBlock\<close> return a
  non-nil error. The \<open>err\<close> returned at line 230 is the one line 220 assigned and line 221
  found nil. Block 3 of the chain is the second block of a batch whose payload decodes to
  one raw block: the index is 1, the guard of line 228 fires, and \<open>DebugBlock\<close> returns no
  results and a nil error.
\<close>

theorem index_guard_returns_nil_error:
  "prologue envV2 3 = Inr frame3V2
   \<and> DecodeBatchV2 (cd envV2) (batch_BatchL2Data (batch frame3V2))
       = Inr \<lparr> Blocks = [\<lparr> IndexL1InfoTree = 4, raw_Transactions = [txA, txB] \<rparr>] \<rparr>
   \<and> GetFirstL2BlockNumberForBatchNumber (st envV2) (BatchNumber (batch frame3V2)) = Inr 2
   \<and> NumberU64 (l2Block frame3V2) - 2 = 1
   \<and> payloadV2 envV2 frame3V2 = Inl (Return [] None, [])
   \<and> DebugBlock envV2 3 traceConfig0 = (Return [] None, [])"
  by (simp add: model_defs chain_defs)

subsection \<open>C4\<close>

text \<open>
  Claim C4. With a tracer other than the default one, the trace configuration of the
  request built for the executor, on either path, has storage, stack, memory and
  return-data capture switched on (\<open>DisableStorage\<close> and \<open>DisableStack\<close> cleared,
  \<open>EnableMemory\<close> and \<open>EnableReturnData\<close> set) whatever the caller's toggles are; with the
  default tracer each field of the request's trace configuration follows the caller's
  toggle.
\<close>

theorem maximal_capture_unless_default_tracer:
  "(processBatchRequest env traceConfig fr = Inr (batchL2Data, req) \<longrightarrow>
      (\<not> IsDefaultTracer (tr env) traceConfig \<longrightarrow>
         req_DisableStorage (req_TraceConfig req) = cFalse \<and>
         req_DisableStack (req_TraceConfig req) = cFalse \<and>
         req_EnableMemory (req_TraceConfig req) = cTrue \<and>
         req_EnableReturnData (req_TraceConfig req) = cTrue) \<and>
      (IsDefaultTracer (tr env) traceConfig \<longrightarrow>
         req_DisableStorage (req_TraceConfig req)
           = (if DisableStorage traceConfig then cTrue else cFalse) \<and>
         req_DisableStack (req_TraceConfig req)
           = (if DisableStack traceConfig then cTrue else cFalse) \<and>
         req_EnableMemory (req_TraceConfig req)
           = (if EnableMemory traceConfig then cTrue else cFalse) \<and>
         req_EnableReturnData (req_TraceConfig req)
           = (if EnableReturnData traceConfig then cTrue else cFalse)))
   \<and> (processBatchRequestV2 env traceConfig fr transactions = Inr reqNew \<longrightarrow>
      (\<not> IsDefaultTracer (tr env) traceConfig \<longrightarrow>
         req_DisableStorage_V2 (req_TraceConfig_V2 reqNew) = cFalse \<and>
         req_DisableStack_V2 (req_TraceConfig_V2 reqNew) = cFalse \<and>
         req_EnableMemory_V2 (req_TraceConfig_V2 reqNew) = cTrue \<and>
         req_EnableReturnData_V2 (req_TraceConfig_V2 reqNew) = cTrue) \<and>
      (IsDefaultTracer (tr env) traceConfig \<longrightarrow>
         req_DisableStorage_V2 (req_TraceConfig_V2 reqNew)
           = (if DisableStorage traceConfig then cTrue else cFalse) \<and>
         req_DisableStack_V2 (req_TraceConfig_V2 reqNew)
           = (if DisableStack traceConfig then cTrue else cFalse) \<and>
         req_EnableMemory_V2 (req_TraceConfig_V2 reqNew)
           = (if EnableMemory traceConfig then cTrue else cFalse) \<and>
         req_EnableReturnData_V2 (req_TraceConfig_V2 reqNew)
           = (if EnableReturnData traceConfig then cTrue else cFalse)))"
proof -
  have old: "req_TraceConfig req = traceConfigRequest env traceConfig (transactionHash fr)"
    if "processBatchRequest env traceConfig fr = Inr (batchL2Data, req)"
    using that by (auto simp: processBatchRequest_def fail_def split: sum.splits)
  have new: "req_TraceConfig_V2 reqNew
               = traceConfigRequestV2 env traceConfig (transactionHash fr)"
    if "processBatchRequestV2 env traceConfig fr transactions = Inr reqNew"
    using that unfolding processBatchRequestV2_def Let_def
    by (auto simp: fail_def split: sum.splits if_splits)
  have a: "\<not> IsDefaultTracer (tr env) traceConfig \<Longrightarrow>
             req_DisableStorage (traceConfigRequest env traceConfig h) = cFalse \<and>
             req_DisableStack (traceConfigRequest env traceConfig h) = cFalse \<and>
             req_EnableMemory (traceConfigRequest env traceConfig h) = cTrue \<and>
             req_EnableReturnData (traceConfigRequest env traceConfig h) = cTrue" for h
    by (simp add: traceConfigRequest_def)
  have b: "IsDefaultTracer (tr env) traceConfig \<Longrightarrow>
             req_DisableStorage (traceConfigRequest env traceConfig h)
               = (if DisableStorage traceConfig then cTrue else cFalse) \<and>
             req_DisableStack (traceConfigRequest env traceConfig h)
               = (if DisableStack traceConfig then cTrue else cFalse) \<and>
             req_EnableMemory (traceConfigRequest env traceConfig h)
               = (if EnableMemory traceConfig then cTrue else cFalse) \<and>
             req_EnableReturnData (traceConfigRequest env traceConfig h)
               = (if EnableReturnData traceConfig then cTrue else cFalse)" for h
    by (simp add: traceConfigRequest_def Let_def)
  have c: "\<not> IsDefaultTracer (tr env) traceConfig \<Longrightarrow>
             req_DisableStorage_V2 (traceConfigRequestV2 env traceConfig h) = cFalse \<and>
             req_DisableStack_V2 (traceConfigRequestV2 env traceConfig h) = cFalse \<and>
             req_EnableMemory_V2 (traceConfigRequestV2 env traceConfig h) = cTrue \<and>
             req_EnableReturnData_V2 (traceConfigRequestV2 env traceConfig h) = cTrue" for h
    by (simp add: traceConfigRequestV2_def)
  have d: "IsDefaultTracer (tr env) traceConfig \<Longrightarrow>
             req_DisableStorage_V2 (traceConfigRequestV2 env traceConfig h)
               = (if DisableStorage traceConfig then cTrue else cFalse) \<and>
             req_DisableStack_V2 (traceConfigRequestV2 env traceConfig h)
               = (if DisableStack traceConfig then cTrue else cFalse) \<and>
             req_EnableMemory_V2 (traceConfigRequestV2 env traceConfig h)
               = (if EnableMemory traceConfig then cTrue else cFalse) \<and>
             req_EnableReturnData_V2 (traceConfigRequestV2 env traceConfig h)
               = (if EnableReturnData traceConfig then cTrue else cFalse)" for h
    by (simp add: traceConfigRequestV2_def Let_def)
  show ?thesis
  proof (intro conjI impI)
    assume r: "processBatchRequest env traceConfig fr = Inr (batchL2Data, req)"
    { assume "\<not> IsDefaultTracer (tr env) traceConfig"
      from a [OF this, of "transactionHash fr"]
      show "req_DisableStorage (req_TraceConfig req) = cFalse"
        and "req_DisableStack (req_TraceConfig req) = cFalse"
        and "req_EnableMemory (req_TraceConfig req) = cTrue"
        and "req_EnableReturnData (req_TraceConfig req) = cTrue"
        unfolding old [OF r] by simp_all }
    { assume "IsDefaultTracer (tr env) traceConfig"
      from b [OF this, of "transactionHash fr"]
      show "req_DisableStorage (req_TraceConfig req)
              = (if DisableStorage traceConfig then cTrue else cFalse)"
        and "req_DisableStack (req_TraceConfig req)
              = (if DisableStack traceConfig then cTrue else cFalse)"
        and "req_EnableMemory (req_TraceConfig req)
              = (if EnableMemory traceConfig then cTrue else cFalse)"
        and "req_EnableReturnData (req_TraceConfig req)
              = (if EnableReturnData traceConfig then cTrue else cFalse)"
        unfolding old [OF r] by simp_all }
  next
    assume r: "processBatchRequestV2 env traceConfig fr transactions = Inr reqNew"
    { assume "\<not> IsDefaultTracer (tr env) traceConfig"
      from c [OF this, of "transactionHash fr"]
      show "req_DisableStorage_V2 (req_TraceConfig_V2 reqNew) = cFalse"
        and "req_DisableStack_V2 (req_TraceConfig_V2 reqNew) = cFalse"
        and "req_EnableMemory_V2 (req_TraceConfig_V2 reqNew) = cTrue"
        and "req_EnableReturnData_V2 (req_TraceConfig_V2 reqNew) = cTrue"
        unfolding new [OF r] by simp_all }
    { assume "IsDefaultTracer (tr env) traceConfig"
      from d [OF this, of "transactionHash fr"]
      show "req_DisableStorage_V2 (req_TraceConfig_V2 reqNew)
              = (if DisableStorage traceConfig then cTrue else cFalse)"
        and "req_DisableStack_V2 (req_TraceConfig_V2 reqNew)
              = (if DisableStack traceConfig then cTrue else cFalse)"
        and "req_EnableMemory_V2 (req_TraceConfig_V2 reqNew)
              = (if EnableMemory traceConfig then cTrue else cFalse)"
        and "req_EnableReturnData_V2 (req_TraceConfig_V2 reqNew)
              = (if EnableReturnData traceConfig then cTrue else cFalse)"
        unfolding new [OF r] by simp_all }
  qed
qed

text \<open>On the chain: the requests built for block 2 with the call tracer and with the default tracer, every toggle set to capture least, under each protocol.\<close>

theorem maximal_capture_unless_default_tracer_witness:
  "\<not> IsDefaultTracer (tr env0) traceConfigCall
   \<and> DisableStorage traceConfigCall \<and> DisableStack traceConfigCall
   \<and> \<not> EnableMemory traceConfigCall \<and> \<not> EnableReturnData traceConfigCall
   \<and> processBatchRequest env0 traceConfigCall frame2 = Inr ([20, 20], requestCall)
   \<and> req_DisableStorage (req_TraceConfig requestCall) = 0
   \<and> req_DisableStack (req_TraceConfig requestCall) = 0
   \<and> req_EnableMemory (req_TraceConfig requestCall) = 1
   \<and> req_EnableReturnData (req_TraceConfig requestCall) = 1
   \<and> processBatchRequestV2 envV2 traceConfigCall frame2V2 [11, 10, 4, 20, 20]
       = Inr requestCallV2
   \<and> req_DisableStorage_V2 (req_TraceConfig_V2 requestCallV2) = 0
   \<and> req_DisableStack_V2 (req_TraceConfig_V2 requestCallV2) = 0
   \<and> req_EnableMemory_V2 (req_TraceConfig_V2 requestCallV2) = 1
   \<and> req_EnableReturnData_V2 (req_TraceConfig_V2 requestCallV2) = 1
   \<and> IsDefaultTracer (tr env0) traceConfig0
   \<and> req_DisableStorage (req_TraceConfig request2) = 1
   \<and> req_DisableStack (req_TraceConfig request2) = 1
   \<and> req_EnableMemory (req_TraceConfig request2) = 0
   \<and> req_EnableReturnData (req_TraceConfig request2) = 0
   \<and> req_DisableStorage_V2 (req_TraceConfig_V2 request2V2) = 1
   \<and> req_DisableStack_V2 (req_TraceConfig_V2 request2V2) = 1
   \<and> req_EnableMemory_V2 (req_TraceConfig_V2 request2V2) = 0
   \<and> req_EnableReturnData_V2 (req_TraceConfig_V2 request2V2) = 0"
proof -
  have n: "\<not> IsDefaultTracer (tr env0) traceConfigCall"
    and nn: "\<not> IsDefaultTracer (tr envV2) traceConfigCall"
    and d: "IsDefaultTracer (tr env0) traceConfig0"
    and dn: "IsDefaultTracer (tr envV2) traceConfig0"
    by (simp_all add: chain_defs)
  have c: "DisableStorage traceConfigCall \<and> DisableStack traceConfigCall
           \<and> \<not> EnableMemory traceConfigCall \<and> \<not> EnableReturnData traceConfigCall"
    by (simp add: chain_defs)
  have c0: "DisableStorage traceConfig0 \<and> DisableStack traceConfig0
           \<and> \<not> EnableMemory traceConfig0 \<and> \<not> EnableReturnData traceConfig0"
    by (simp add: chain_defs)
  have r1: "processBatchRequest env0 traceConfigCall frame2 = Inr ([20, 20], requestCall)"
    by (simp add: model_defs chain_defs requestCall_def)
  have r2: "processBatchRequestV2 envV2 traceConfigCall frame2V2 [11, 10, 4, 20, 20]
              = Inr requestCallV2"
    by (simp add: model_defs chain_defs requestCallV2_def)
  from maximal_capture_unless_default_tracer
         [where env = env0 and traceConfig = traceConfigCall and fr = frame2
            and batchL2Data = "[20, 20]" and req = requestCall] r1 n
  have a: "req_DisableStorage (req_TraceConfig requestCall) = 0
           \<and> req_DisableStack (req_TraceConfig requestCall) = 0
           \<and> req_EnableMemory (req_TraceConfig requestCall) = 1
           \<and> req_EnableReturnData (req_TraceConfig requestCall) = 1"
    by (simp add: cTrue_def cFalse_def)
  from maximal_capture_unless_default_tracer
         [where env = envV2 and traceConfig = traceConfigCall and fr = frame2V2
            and transactions = "[11, 10, 4, 20, 20]" and reqNew = requestCallV2] r2 nn
  have b: "req_DisableStorage_V2 (req_TraceConfig_V2 requestCallV2) = 0
           \<and> req_DisableStack_V2 (req_TraceConfig_V2 requestCallV2) = 0
           \<and> req_EnableMemory_V2 (req_TraceConfig_V2 requestCallV2) = 1
           \<and> req_EnableReturnData_V2 (req_TraceConfig_V2 requestCallV2) = 1"
    by (simp add: cTrue_def cFalse_def)
  from maximal_capture_unless_default_tracer
         [where env = env0 and traceConfig = traceConfig0 and fr = frame2
            and batchL2Data = "[20, 20]" and req = request2] request_env0_2 d c0
  have e: "req_DisableStorage (req_TraceConfig request2) = 1
           \<and> req_DisableStack (req_TraceConfig request2) = 1
           \<and> req_EnableMemory (req_TraceConfig request2) = 0
           \<and> req_EnableReturnData (req_TraceConfig request2) = 0"
    by (simp add: cTrue_def cFalse_def)
  from maximal_capture_unless_default_tracer
         [where env = envV2 and traceConfig = traceConfig0 and fr = frame2V2
            and transactions = "[11, 10, 4, 20, 20]" and reqNew = request2V2]
       request_envV2_2 dn c0
  have f: "req_DisableStorage_V2 (req_TraceConfig_V2 request2V2) = 1
           \<and> req_DisableStack_V2 (req_TraceConfig_V2 request2V2) = 1
           \<and> req_EnableMemory_V2 (req_TraceConfig_V2 request2V2) = 0
           \<and> req_EnableReturnData_V2 (req_TraceConfig_V2 request2V2) = 0"
    by (simp add: cTrue_def cFalse_def)
  from n c r1 a r2 b d e f show ?thesis by blast
qed

subsection \<open>C5\<close>

text \<open>
  Claim C5. On the post-boundary path the request is built in the genesis-injected way
  (\<open>ForcedBlockhashL1\<close> from the L1 block of the virtual batch, L1-info-root verification
  skipped, no \<open>L1InfoTreeData\<close>) exactly when the number of the block is 1. For every other
  number \<open>ForcedBlockhashL1\<close> stays empty and the L1-info-tree data resolved from the payload
  is attached, with verification skipped, when it is non-empty; when it is empty the
  request keeps standard verification.
\<close>

theorem anchor_mode_by_block_number:
  assumes "processBatchRequestV2 env traceConfig fr transactions = Inr req"
  shows "(NumberU64 (l2Block fr) = 1 \<longrightarrow>
            (\<exists>virtualBatch l1Block.
               GetVirtualBatch (st env) (BatchNumber (batch fr)) = Inr virtualBatch \<and>
               GetBlockByNumber (st env) (vb_BlockNumber virtualBatch) = Inr l1Block \<and>
               ForcedBlockhashL1 req = BlockHash l1Block) \<and>
            SkipVerifyL1InfoRoot req = 1 \<and>
            L1InfoTreeData req = [])
       \<and> (NumberU64 (l2Block fr) \<noteq> 1 \<longrightarrow>
            ForcedBlockhashL1 req = [] \<and>
            (\<exists>l1InfoTreeData.
               GetL1InfoTreeDataFromBatchL2Data (st env) transactions = Inr l1InfoTreeData \<and>
               L1InfoTreeData req = map toExecutorL1Data l1InfoTreeData \<and>
               (l1InfoTreeData \<noteq> [] \<longrightarrow> SkipVerifyL1InfoRoot req = cTrue) \<and>
               (l1InfoTreeData = [] \<longrightarrow> SkipVerifyL1InfoRoot req = 0)))"
  using assms unfolding processBatchRequestV2_def isInjectedTx_def Let_def
  by (auto simp: fail_def split: sum.splits if_splits)

text \<open>On the chain: block 1, block 2, and block 2 when no L1-info-tree data is resolved.\<close>

theorem anchor_mode_by_block_number_witness:
  "NumberU64 (l2Block frame1V2) = 1
   \<and> ForcedBlockhashL1 request1V2 = [0xEE]
   \<and> SkipVerifyL1InfoRoot request1V2 = 1
   \<and> L1InfoTreeData request1V2 = []
   \<and> NumberU64 (l2Block frame2V2) \<noteq> 1
   \<and> ForcedBlockhashL1 request2V2 = []
   \<and> SkipVerifyL1InfoRoot request2V2 = cTrue
   \<and> L1InfoTreeData request2V2 =
       [(4, \<lparr> x_GlobalExitRoot = [8], x_BlockHashL1 = [0xEE], x_MinTimestamp = 900 \<rparr>)]
   \<and> processBatchRequestV2 envNoAnchor traceConfig0 frame2V2 [11, 10, 4, 20, 20] =
       Inr (request2V2\<lparr> L1InfoTreeData := [], SkipVerifyL1InfoRoot := 0 \<rparr>)"
proof -
  have one: "NumberU64 (l2Block frame1V2) = 1" and two: "NumberU64 (l2Block frame2V2) \<noteq> 1"
    by (simp_all add: chain_defs)
  have vb: "GetVirtualBatch (st envV2) (BatchNumber (batch frame1V2)) = Inr \<lparr> vb_BlockNumber = 77 \<rparr>"
    and l1: "GetBlockByNumber (st envV2) 77 = Inr \<lparr> BlockHash = [0xEE] \<rparr>"
    and dt: "GetL1InfoTreeDataFromBatchL2Data (st envV2) [11, 10, 4, 20, 20] =
               Inr [(4, \<lparr> l1_GlobalExitRoot = [8], l1_BlockHashL1 = [0xEE],
                          l1_MinTimestamp = 900 \<rparr>)]"
    by (simp_all add: chain_defs)
  from anchor_mode_by_block_number [OF request_envV2_1] one vb l1
  have a: "ForcedBlockhashL1 request1V2 = [0xEE] \<and> SkipVerifyL1InfoRoot request1V2 = 1
           \<and> L1InfoTreeData request1V2 = []"
    by auto
  from anchor_mode_by_block_number [OF request_envV2_2] two dt
  have b: "ForcedBlockhashL1 request2V2 = [] \<and> SkipVerifyL1InfoRoot request2V2 = cTrue
           \<and> L1InfoTreeData request2V2 =
               [(4, \<lparr> x_GlobalExitRoot = [8], x_BlockHashL1 = [0xEE], x_MinTimestamp = 900 \<rparr>)]"
    by (auto simp: toExecutorL1Data_def)
  have c: "processBatchRequestV2 envNoAnchor traceConfig0 frame2V2 [11, 10, 4, 20, 20] =
       Inr (request2V2\<lparr> L1InfoTreeData := [], SkipVerifyL1InfoRoot := 0 \<rparr>)"
    by (simp add: model_defs chain_defs)
  from anchor_mode_by_block_number [OF c] two
  have "SkipVerifyL1InfoRoot (request2V2\<lparr> L1InfoTreeData := [], SkipVerifyL1InfoRoot := 0 \<rparr>) = 0"
    by simp
  with one two a b c show ?thesis by simp
qed

subsection \<open>C6\<close>

text \<open>
  Claim C6, as the code has it. On the post-boundary path the request carries the payload
  computed by lines 207-245, the mock L1-info root and the clock's reading as timestamp
  limit. For a block whose number is not 1 the payload is the boundary transaction, built
  from the difference of the block's time and the previous block's time (truncated to 32
  bits) and the L1-info-tree index of the raw block at the block's position in the batch,
  followed by the encoding of the block's transactions. For block number 1 the payload is
  the stored payload of the batch, unchanged.
\<close>

theorem payload_post_boundary:
  assumes "prologue env blockNumber = Inr fr"
    and "payloadV2 env fr = Inr (transactions, batchL2Data)"
    and "processBatchRequestV2 env traceConfig fr transactions = Inr req"
  shows "BatchL2Data_V2 req = transactions
       \<and> L1InfoRoot req = GetMockL1InfoRoot (cd env)
       \<and> TimestampLimit req = word_of_int (now_TimestampLimit (lib env))
       \<and> (NumberU64 (l2Block fr) = 1 \<longrightarrow> transactions = batch_BatchL2Data (batch fr))
       \<and> (NumberU64 (l2Block fr) \<noteq> 1 \<longrightarrow>
            (\<exists>rawBatch firstBlockNumberForBatch.
               DecodeBatchV2 (cd env) (batch_BatchL2Data (batch fr)) = Inr rawBatch \<and>
               GetFirstL2BlockNumberForBatchNumber (st env) (BatchNumber (batch fr))
                 = Inr firstBlockNumberForBatch \<and>
               unat (NumberU64 (l2Block fr) - firstBlockNumberForBatch)
                 < length (Blocks rawBatch) \<and>
               EncodeTransactions (cd env) (Transactions (l2Block fr))
                 (effectivePercentage fr) (forkId fr) = Inr batchL2Data \<and>
               transactions =
                 BuildChangeL2Block (cd env)
                   (ucast (block_Time (l2Block fr) - block_Time (previousL2Block fr)))
                   (IndexL1InfoTree
                      (Blocks rawBatch
                         ! unat (NumberU64 (l2Block fr) - firstBlockNumberForBatch)))
                 @ batchL2Data))"
proof -
  have r: "BatchL2Data_V2 req = transactions
       \<and> L1InfoRoot req = GetMockL1InfoRoot (cd env)
       \<and> TimestampLimit req = word_of_int (now_TimestampLimit (lib env))"
    using assms(3) unfolding processBatchRequestV2_def Let_def
    by (auto simp: fail_def split: sum.splits if_splits)
  have i: "transactions = batch_BatchL2Data (batch fr)" if "NumberU64 (l2Block fr) = 1"
    using assms(2) that by (simp add: payloadV2_def isInjectedTx_def)
  have n: "\<exists>rawBatch firstBlockNumberForBatch.
               DecodeBatchV2 (cd env) (batch_BatchL2Data (batch fr)) = Inr rawBatch \<and>
               GetFirstL2BlockNumberForBatchNumber (st env) (BatchNumber (batch fr))
                 = Inr firstBlockNumberForBatch \<and>
               unat (NumberU64 (l2Block fr) - firstBlockNumberForBatch)
                 < length (Blocks rawBatch) \<and>
               EncodeTransactions (cd env) (Transactions (l2Block fr))
                 (effectivePercentage fr) (forkId fr) = Inr batchL2Data \<and>
               transactions =
                 BuildChangeL2Block (cd env)
                   (ucast (block_Time (l2Block fr) - block_Time (previousL2Block fr)))
                   (IndexL1InfoTree
                      (Blocks rawBatch
                         ! unat (NumberU64 (l2Block fr) - firstBlockNumberForBatch)))
                 @ batchL2Data"
    if "NumberU64 (l2Block fr) \<noteq> 1"
    using assms(2) that unfolding prologue_txsToEncode [OF assms(1), symmetric]
    by (auto simp: payloadV2_def isInjectedTx_def fail_def panics_def Let_def
             split: sum.splits if_splits)
  from r i n show ?thesis by blast
qed

text \<open>On the chain: block 2 and block 1 under the post-boundary protocol.\<close>

theorem payload_post_boundary_witness:
  "NumberU64 (l2Block frame2V2) \<noteq> 1
   \<and> BatchL2Data_V2 request2V2 =
       BuildChangeL2Block (cd envV2) (ucast (block_Time block2 - block_Time block1)) 4 @ [20, 20]
   \<and> EncodeTransactions (cd envV2) (Transactions block2) [20, 20] 7 = Inr [20, 20]
   \<and> L1InfoRoot request2V2 = GetMockL1InfoRoot (cd envV2)
   \<and> TimestampLimit request2V2 = word_of_int (now_TimestampLimit (lib envV2))
   \<and> NumberU64 (l2Block frame1V2) = 1
   \<and> BatchL2Data_V2 request1V2 = batch_BatchL2Data batch1
   \<and> L1InfoRoot request1V2 = GetMockL1InfoRoot (cd envV2)
   \<and> TimestampLimit request1V2 = word_of_int (now_TimestampLimit (lib envV2))"
proof -
  have one: "NumberU64 (l2Block frame1V2) = 1" and two: "NumberU64 (l2Block frame2V2) \<noteq> 1"
    by (simp_all add: chain_defs)
  have raw: "DecodeBatchV2 (cd envV2) (batch_BatchL2Data (batch frame2V2)) =
               Inr \<lparr> Blocks = [\<lparr> IndexL1InfoTree = 4, raw_Transactions = [txA, txB] \<rparr>] \<rparr>"
    and first: "GetFirstL2BlockNumberForBatchNumber (st envV2) (BatchNumber (batch frame2V2)) = Inr 2"
    by (simp_all add: chain_defs)
  from payload_post_boundary [OF prologue_envV2_2 payload_envV2_2 request_envV2_2] two raw first
  have a: "BatchL2Data_V2 request2V2 =
             BuildChangeL2Block (cd envV2)
               (ucast (block_Time (l2Block frame2V2) - block_Time (previousL2Block frame2V2)))
               (IndexL1InfoTree
                  (Blocks \<lparr> Blocks = [\<lparr> IndexL1InfoTree = 4, raw_Transactions = [txA, txB] \<rparr>] \<rparr>
                     ! unat (NumberU64 (l2Block frame2V2) - 2)))
             @ [20, 20]"
    and b: "L1InfoRoot request2V2 = GetMockL1InfoRoot (cd envV2)"
    and c: "TimestampLimit request2V2 = word_of_int (now_TimestampLimit (lib envV2))"
    and d: "EncodeTransactions (cd envV2) (Transactions (l2Block frame2V2))
              (effectivePercentage frame2V2) (forkId frame2V2) = Inr [20, 20]"
    by auto
  from a have a': "BatchL2Data_V2 request2V2 =
       BuildChangeL2Block (cd envV2) (ucast (block_Time block2 - block_Time block1)) 4 @ [20, 20]"
    by (simp add: frame2V2_def frame2_def block2_def)
  from d have d': "EncodeTransactions (cd envV2) (Transactions block2) [20, 20] 7 = Inr [20, 20]"
    by (simp add: frame2V2_def frame2_def)
  from payload_post_boundary [OF prologue_envV2_1 payload_envV2_1 request_envV2_1] one
  have e: "BatchL2Data_V2 request1V2 = batch_BatchL2Data batch1"
    and f: "L1InfoRoot request1V2 = GetMockL1InfoRoot (cd envV2)"
    and g: "TimestampLimit request1V2 = word_of_int (now_TimestampLimit (lib envV2))"
    by (simp_all add: frame1V2_def)
  from one two a' b c d' e f g show ?thesis by simp
qed

text \<open>
  Claim C6 as stated fails at block number 1: the request holds the batch's stored payload,
  which is not the boundary transaction followed by the encoding of the block's
  transaction. The last conjunct reads the request off the audit log of a call whose
  executor reports an error.
\<close>

theorem payload_counterexample:
  "prologue envV2 1 = Inr frame1V2
   \<and> payloadV2 envV2 frame1V2 = Inr ([11, 0, 0, 50], [])
   \<and> processBatchRequestV2 envV2 traceConfig0 frame1V2 [11, 0, 0, 50] = Inr request1V2
   \<and> BatchL2Data_V2 request1V2 = batch_BatchL2Data batch1
   \<and> DecodeBatchV2 (cd envV2) (batch_BatchL2Data batch1)
       = Inr \<lparr> Blocks = [\<lparr> IndexL1InfoTree = 4, raw_Transactions = [txA, txB] \<rparr>] \<rparr>
   \<and> EncodeTransactions (cd envV2) (Transactions block1) (effectivePercentage frame1V2) 7
       = Inr [10]
   \<and> BatchL2Data_V2 request1V2
       \<noteq> BuildChangeL2Block (cd envV2) (ucast (block_Time block1 - block_Time block0)) 4 @ [10]
   \<and> DebugBlock (withExecutorError envV2 2) 1 traceConfig0
       = (Return [] (Some (Err ''executor error'')), [LogExecutorErrorV2 2 request1V2])"
  by (simp add: model_defs chain_defs)

subsection \<open>C7\<close>



subsection \<open>C8\<close>

text \<open>
  Claim C8. After a successful executor call, on the pre-boundary path and on the
  post-boundary path of a block other than number 1, the payload is decoded again for
  the logger only. If that decode reports an error that is or wraps \<open>ErrInvalidData\<close>,
  \<open>DebugBlock\<close> goes on to convert the response and build the results as if the decode had
  succeeded; if it reports any other error, \<open>DebugBlock\<close> returns that error and no
  results.
\<close>

theorem decode_for_logging:
  assumes "prologue env blockNumber = Inr fr"
  shows "(forkId fr < FORKID_ETROG (cd env) \<longrightarrow>
          processBatchRequest env traceConfig fr = Inr (batchL2Data, req) \<longrightarrow>
          ProcessBatch (ex env) req = Inr response \<longrightarrow>
          Error response = EXECUTOR_ERROR_NO_ERROR (ex env) \<longrightarrow>
          DecodeTxs (cd env) batchL2Data (forkId fr) = (txs, Some e) \<longrightarrow>
            (errors_Is e ErrInvalidData \<longrightarrow>
               DebugBlock env blockNumber traceConfig =
                 (case convertV1 env response of
                    Inl stop \<Rightarrow> stop
                  | Inr responses \<Rightarrow> results env traceConfig fr responses)) \<and>
            (\<not> errors_Is e ErrInvalidData \<longrightarrow>
               DebugBlock env blockNumber traceConfig = (Return [] (Some e), [])))
       \<and> (\<not> forkId fr < FORKID_ETROG (cd env) \<longrightarrow>
          NumberU64 (l2Block fr) \<noteq> 1 \<longrightarrow>
          payloadV2 env fr = Inr (transactions, batchL2DataNew) \<longrightarrow>
          processBatchRequestV2 env traceConfig fr transactions = Inr reqNew \<longrightarrow>
          ProcessBatchV2 (ex env) reqNew = Inr responseNew \<longrightarrow>
          Error responseNew = EXECUTOR_ERROR_NO_ERROR (ex env) \<longrightarrow>
          DecodeTxs (cd env) batchL2DataNew (forkId fr) = (txsNew, Some eNew) \<longrightarrow>
            (errors_Is eNew ErrInvalidData \<longrightarrow>
               DebugBlock env blockNumber traceConfig =
                 (case convertV2 env responseNew of
                    Inl stop \<Rightarrow> stop
                  | Inr responses \<Rightarrow> results env traceConfig fr responses)) \<and>
            (\<not> errors_Is eNew ErrInvalidData \<longrightarrow>
               DebugBlock env blockNumber traceConfig = (Return [] (Some eNew), [])))"
proof (intro conjI impI)
  assume a: "forkId fr < FORKID_ETROG (cd env)"
    "processBatchRequest env traceConfig fr = Inr (batchL2Data, req)"
    "ProcessBatch (ex env) req = Inr response"
    "Error response = EXECUTOR_ERROR_NO_ERROR (ex env)"
    "DecodeTxs (cd env) batchL2Data (forkId fr) = (txs, Some e)"
  { assume "errors_Is e ErrInvalidData"
    with a(3-5) show "DebugBlock env blockNumber traceConfig =
        (case convertV1 env response of
           Inl stop \<Rightarrow> stop
         | Inr responses \<Rightarrow> results env traceConfig fr responses)"
      unfolding DebugBlock_V1 [OF assms a(1,2)]
      by (simp add: executeV1_def fatalDecodeError_def) }
  { assume "\<not> errors_Is e ErrInvalidData"
    with a(3-5) show "DebugBlock env blockNumber traceConfig = (Return [] (Some e), [])"
      unfolding DebugBlock_V1 [OF assms a(1,2)]
      by (simp add: executeV1_def fatalDecodeError_def) }
next
  assume a: "\<not> forkId fr < FORKID_ETROG (cd env)"
    "NumberU64 (l2Block fr) \<noteq> 1"
    "payloadV2 env fr = Inr (transactions, batchL2DataNew)"
    "processBatchRequestV2 env traceConfig fr transactions = Inr reqNew"
    "ProcessBatchV2 (ex env) reqNew = Inr responseNew"
    "Error responseNew = EXECUTOR_ERROR_NO_ERROR (ex env)"
    "DecodeTxs (cd env) batchL2DataNew (forkId fr) = (txsNew, Some eNew)"
  { assume "errors_Is eNew ErrInvalidData"
    with a(2,5-7) show "DebugBlock env blockNumber traceConfig =
        (case convertV2 env responseNew of
           Inl stop \<Rightarrow> stop
         | Inr responses \<Rightarrow> results env traceConfig fr responses)"
      unfolding DebugBlock_V2 [OF assms a(1,3,4)]
      by (simp add: executeV2_def fatalDecodeError_def isInjectedTx_def) }
  { assume "\<not> errors_Is eNew ErrInvalidData"
    with a(2,5-7) show "DebugBlock env blockNumber traceConfig = (Return [] (Some eNew), [])"
      unfolding DebugBlock_V2 [OF assms a(1,3,4)]
      by (simp add: executeV2_def fatalDecodeError_def isInjectedTx_def) }
qed

text \<open>On the chain: a decode that reports a wrapped \<open>ErrInvalidData\<close>, and one that reports another error, under each protocol.\<close>

theorem decode_for_logging_witness:
  "errors_Is (Wrap ''decode'' ErrInvalidData) ErrInvalidData
   \<and> DebugBlock (withDecodeError env0 (Wrap ''decode'' ErrInvalidData)) 2 traceConfig0
       = DebugBlock env0 2 traceConfig0
   \<and> DebugBlock (withDecodeError envV2 (Wrap ''decode'' ErrInvalidData)) 2 traceConfig0
       = DebugBlock envV2 2 traceConfig0
   \<and> \<not> errors_Is (Err ''invalid RLP'') ErrInvalidData
   \<and> DebugBlock (withDecodeError env0 (Err ''invalid RLP'')) 2 traceConfig0
       = (Return [] (Some (Err ''invalid RLP'')), [])
   \<and> DebugBlock (withDecodeError envV2 (Err ''invalid RLP'')) 2 traceConfig0
       = (Return [] (Some (Err ''invalid RLP'')), [])"
proof -
  let ?ok = "Wrap ''decode'' ErrInvalidData"
  let ?bad = "Err ''invalid RLP''"
  let ?resp = "\<lparr> Error = 0, Body = [20, 20] \<rparr>"
  have ok: "errors_Is ?ok ErrInvalidData" and bad: "\<not> errors_Is ?bad ErrInvalidData"
    by simp_all
  have v1: "prologue (withDecodeError env0 err) 2 = Inr frame2"
    "forkId frame2 < FORKID_ETROG (cd (withDecodeError env0 err))"
    "processBatchRequest (withDecodeError env0 err) traceConfig0 frame2 = Inr ([20, 20], request2)"
    "ProcessBatch (ex (withDecodeError env0 err)) request2 = Inr ?resp"
    "Error ?resp = EXECUTOR_ERROR_NO_ERROR (ex (withDecodeError env0 err))"
    "DecodeTxs (cd (withDecodeError env0 err)) [20, 20] (forkId frame2) = ([], Some err)"
    for err
    by (simp_all add: model_defs chain_defs)
  have v2: "prologue (withDecodeError envV2 err) 2 = Inr frame2V2"
    "\<not> forkId frame2V2 < FORKID_ETROG (cd (withDecodeError envV2 err))"
    "payloadV2 (withDecodeError envV2 err) frame2V2 = Inr ([11, 10, 4, 20, 20], [20, 20])"
    "processBatchRequestV2 (withDecodeError envV2 err) traceConfig0 frame2V2 [11, 10, 4, 20, 20]
       = Inr request2V2"
    "ProcessBatchV2 (ex (withDecodeError envV2 err)) request2V2 = Inr ?resp"
    "Error ?resp = EXECUTOR_ERROR_NO_ERROR (ex (withDecodeError envV2 err))"
    "DecodeTxs (cd (withDecodeError envV2 err)) [20, 20] (forkId frame2V2) = ([], Some err)"
    for err
    by (simp_all add: model_defs chain_defs)
  have two: "NumberU64 (l2Block frame2V2) \<noteq> 1"
    by (simp add: chain_defs)
  from decode_for_logging [OF v1(1), where traceConfig = traceConfig0 and batchL2Data = "[20, 20]"
         and req = request2 and response = ?resp and txs = "[]" and e = ?ok]
       v1(2-6) [of ?ok] ok
  have a: "DebugBlock (withDecodeError env0 ?ok) 2 traceConfig0 =
             (case convertV1 (withDecodeError env0 ?ok) ?resp of
                Inl stop \<Rightarrow> stop
              | Inr responses \<Rightarrow> results (withDecodeError env0 ?ok) traceConfig0 frame2 responses)"
    by simp
  have a': "DebugBlock (withDecodeError env0 ?ok) 2 traceConfig0 = DebugBlock env0 2 traceConfig0"
    unfolding a by (simp add: model_defs chain_defs)
  from decode_for_logging [OF v1(1), where traceConfig = traceConfig0 and batchL2Data = "[20, 20]"
         and req = request2 and response = ?resp and txs = "[]" and e = ?bad]
       v1(2-6) [of ?bad] bad
  have b: "DebugBlock (withDecodeError env0 ?bad) 2 traceConfig0 = (Return [] (Some ?bad), [])"
    by simp
  from decode_for_logging [OF v2(1), where traceConfig = traceConfig0
         and transactions = "[11, 10, 4, 20, 20]" and batchL2DataNew = "[20, 20]"
         and reqNew = request2V2 and responseNew = ?resp and txsNew = "[]" and eNew = ?ok]
       v2(2-7) [of ?ok] two ok
  have c: "DebugBlock (withDecodeError envV2 ?ok) 2 traceConfig0 =
             (case convertV2 (withDecodeError envV2 ?ok) ?resp of
                Inl stop \<Rightarrow> stop
              | Inr responses \<Rightarrow>
                  results (withDecodeError envV2 ?ok) traceConfig0 frame2V2 responses)"
    by simp
  have c': "DebugBlock (withDecodeError envV2 ?ok) 2 traceConfig0 = DebugBlock envV2 2 traceConfig0"
    unfolding c by (simp add: model_defs chain_defs)
  from decode_for_logging [OF v2(1), where traceConfig = traceConfig0
         and transactions = "[11, 10, 4, 20, 20]" and batchL2DataNew = "[20, 20]"
         and reqNew = request2V2 and responseNew = ?resp and txsNew = "[]" and eNew = ?bad]
       v2(2-7) [of ?bad] two bad
  have d: "DebugBlock (withDecodeError envV2 ?bad) 2 traceConfig0 = (Return [] (Some ?bad), [])"
    by simp
  from ok bad a' b c' d show ?thesis by blast
qed

subsection \<open>C9\<close>

text \<open>
  Claim C9. For a block with at least one transaction, the percentages handed to
  \<open>EncodeTransactions\<close> on either path are one value repeated once per transaction: the
  one computed from the gas price of the block's last transaction and the effective gas
  price of the receipt of that last transaction.
\<close>

theorem effectivePercentage_from_last_transaction:
  assumes "prologue env blockNumber = Inr fr"
    and "Transactions (l2Block fr) \<noteq> []"
  shows "\<exists>r. GetTransactionReceipt (st env) (tx_Hash (last (Transactions (l2Block fr)))) = Inr r \<and>
             effectivePercentage fr =
               replicate (length (Transactions (l2Block fr)))
                 (percentageOf env (last (Transactions (l2Block fr))) r) \<and>
             (\<forall>batchL2Data req.
                processBatchRequest env traceConfig fr = Inr (batchL2Data, req) \<longrightarrow>
                EncodeTransactions (cd env) (Transactions (l2Block fr))
                  (replicate (length (Transactions (l2Block fr)))
                     (percentageOf env (last (Transactions (l2Block fr))) r))
                  (forkId fr) = Inr batchL2Data) \<and>
             (\<forall>transactions batchL2Data.
                NumberU64 (l2Block fr) \<noteq> 1 \<longrightarrow>
                payloadV2 env fr = Inr (transactions, batchL2Data) \<longrightarrow>
                EncodeTransactions (cd env) (Transactions (l2Block fr))
                  (replicate (length (Transactions (l2Block fr)))
                     (percentageOf env (last (Transactions (l2Block fr))) r))
                  (forkId fr) = Inr batchL2Data)"
proof -
  from lastTransaction_Inr [OF prologue_Inr(2) [OF assms(1)]] assms(2)
  obtain r where
    ptr: "tx fr = Some (last (Transactions (l2Block fr)))" "receipt fr = Some r" and
    rc: "GetTransactionReceipt (st env) (tx_Hash (last (Transactions (l2Block fr)))) = Inr r"
    by auto
  from prologue_Inr(3) [OF assms(1)] ptr
  have "encodingInputs env (Some (last (Transactions (l2Block fr)))) (Some r)
          (Transactions (l2Block fr)) [] [] = Inr (txsToEncode fr, effectivePercentage fr)"
    by simp
  from encodingInputs_Some [OF this]
  have txs: "txsToEncode fr = Transactions (l2Block fr)"
    and eff: "effectivePercentage fr =
        replicate (length (Transactions (l2Block fr)))
          (percentageOf env (last (Transactions (l2Block fr))) r)"
    by simp_all
  have enc: "EncodeTransactions (cd env) (Transactions (l2Block fr))
              (replicate (length (Transactions (l2Block fr)))
                 (percentageOf env (last (Transactions (l2Block fr))) r))
              (forkId fr)
            = EncodeTransactions (cd env) (txsToEncode fr) (effectivePercentage fr) (forkId fr)"
    using txs eff by simp
  have v1: "EncodeTransactions (cd env) (Transactions (l2Block fr))
              (replicate (length (Transactions (l2Block fr)))
                 (percentageOf env (last (Transactions (l2Block fr))) r))
              (forkId fr) = Inr batchL2Data"
    if "processBatchRequest env traceConfig fr = Inr (batchL2Data, req)" for batchL2Data req
    using that unfolding enc
    by (auto simp: processBatchRequest_def fail_def split: sum.splits)
  have v2: "EncodeTransactions (cd env) (Transactions (l2Block fr))
              (replicate (length (Transactions (l2Block fr)))
                 (percentageOf env (last (Transactions (l2Block fr))) r))
              (forkId fr) = Inr batchL2Data"
    if "NumberU64 (l2Block fr) \<noteq> 1" "payloadV2 env fr = Inr (transactions, batchL2Data)"
    for transactions batchL2Data
    using that unfolding enc
    by (auto simp: payloadV2_def isInjectedTx_def fail_def panics_def Let_def
             split: sum.splits if_splits)
  from rc eff v1 v2 show ?thesis by blast
qed

text \<open>On the chain: block 2, whose transactions have the gas prices 10 and 20.\<close>

theorem effectivePercentage_from_last_transaction_witness:
  "Transactions (l2Block frame2) = [txA, txB]
   \<and> effectivePercentage frame2 = replicate 2 (percentageOf env0 txB receipt1)
   \<and> percentageOf env0 txB receipt1 = 20
   \<and> percentageOf env0 txA receipt1 = 10
   \<and> EncodeTransactions (cd env0) [txA, txB] [20, 20] 6 = Inr [20, 20]"
proof -
  have txs: "Transactions (l2Block frame2) = [txA, txB]"
    by (simp add: frame2_def block2_def)
  then have ne: "Transactions (l2Block frame2) \<noteq> []"
    by simp
  have rc: "GetTransactionReceipt (st env0) h = Inr receipt1" for h
    by (simp add: env0_def storage0_def)
  have pB: "percentageOf env0 txB receipt1 = 20" and pA: "percentageOf env0 txA receipt1 = 10"
    by (simp_all add: percentageOf_def chain_defs)
  from effectivePercentage_from_last_transaction
         [OF prologue_env0_2 ne, where traceConfig = traceConfig0]
  obtain r where
    r: "GetTransactionReceipt (st env0) (tx_Hash (last (Transactions (l2Block frame2)))) = Inr r"
    and eff: "effectivePercentage frame2 =
                replicate (length (Transactions (l2Block frame2)))
                  (percentageOf env0 (last (Transactions (l2Block frame2))) r)"
    and enc: "\<forall>batchL2Data req.
                processBatchRequest env0 traceConfig0 frame2 = Inr (batchL2Data, req) \<longrightarrow>
                EncodeTransactions (cd env0) (Transactions (l2Block frame2))
                  (replicate (length (Transactions (l2Block frame2)))
                     (percentageOf env0 (last (Transactions (l2Block frame2))) r))
                  (forkId frame2) = Inr batchL2Data"
    by blast
  from r rc have "r = receipt1" by simp
  with eff txs have e: "effectivePercentage frame2 = replicate 2 (percentageOf env0 txB receipt1)"
    by (simp add: numeral_2_eq_2)
  from enc request_env0_2 \<open>r = receipt1\<close> txs pB
  have "EncodeTransactions (cd env0) [txA, txB] [20, 20] (forkId frame2) = Inr [20, 20]"
    by (auto simp: numeral_2_eq_2)
  then have "EncodeTransactions (cd env0) [txA, txB] [20, 20] 6 = Inr [20, 20]"
    by (simp add: frame2_def)
  with txs e pB pA show ?thesis by simp
qed

subsection \<open>C10\<close>

text \<open>
  Claim C10. On the post-boundary path of a block other than number 1, when the batch
  payload decodes to no raw block, the bound of the guard of line 228,
  \<open>uint64(len(rawBatch.Blocks)-1)\<close>, is \<open>2^64 - 1\<close>, no index exceeds it, and the access of
  line 234 is out of range: \<open>DebugBlock\<close> panics.
\<close>

theorem empty_raw_batch_panics:
  assumes "prologue env blockNumber = Inr fr"
    and "\<not> forkId fr < FORKID_ETROG (cd env)"
    and "NumberU64 (l2Block fr) \<noteq> 1"
    and "DecodeBatchV2 (cd env) (batch_BatchL2Data (batch fr)) = Inr rawBatch"
    and "Blocks rawBatch = []"
    and "GetFirstL2BlockNumberForBatchNumber (st env) (BatchNumber (batch fr))
           = Inr firstBlockNumberForBatch"
  shows "unat (word_of_int (int (length (Blocks rawBatch)) - 1) :: uint64) = 2 ^ 64 - 1
       \<and> \<not> (NumberU64 (l2Block fr) - firstBlockNumberForBatch
              > (word_of_int (int (length (Blocks rawBatch)) - 1) :: uint64))
       \<and> payloadV2 env fr = Inl (Panic IndexOutOfRange, [])
       \<and> DebugBlock env blockNumber traceConfig = (Panic IndexOutOfRange, [])"
proof -
  have m: "(word_of_int (int (length (Blocks rawBatch)) - 1) :: uint64) = - 1"
    using assms(5) by simp
  have g: "\<not> (NumberU64 (l2Block fr) - firstBlockNumberForBatch > (- 1 :: uint64))"
    by simp
  have u: "unat (- 1 :: uint64) = 2 ^ 64 - 1"
    by (simp add: unsigned_minus_1_eq_mask mask_eq_exp_minus_1)
  have p: "payloadV2 env fr = Inl (Panic IndexOutOfRange, [])"
    using assms(3-6) g
    by (simp add: payloadV2_def isInjectedTx_def panics_def Let_def)
  with assms(1,2) have "DebugBlock env blockNumber traceConfig = (Panic IndexOutOfRange, [])"
    by (simp add: DebugBlock_def executorResponses_def pathV2_def)
  with m g u p show ?thesis by simp
qed

text \<open>On the chain: block 2 when the payload decodes to no raw block.\<close>

theorem empty_raw_batch_panics_witness:
  "Blocks \<lparr> Blocks = [] \<rparr> = []
   \<and> NumberU64 (l2Block frame2V2) \<noteq> 1
   \<and> \<not> (NumberU64 (l2Block frame2V2) - 2 > (word_of_int (int (length ([] :: L2BlockRaw list)) - 1) :: uint64))
   \<and> DebugBlock envEmptyBatch 2 traceConfig0 = (Panic IndexOutOfRange, [])"
proof -
  have p: "prologue envEmptyBatch 2 = Inr frame2V2"
    by (simp add: model_defs chain_defs)
  have f: "\<not> forkId frame2V2 < FORKID_ETROG (cd envEmptyBatch)"
    and n: "NumberU64 (l2Block frame2V2) \<noteq> 1"
    and d: "DecodeBatchV2 (cd envEmptyBatch) (batch_BatchL2Data (batch frame2V2))
              = Inr \<lparr> Blocks = [] \<rparr>"
    and g: "GetFirstL2BlockNumberForBatchNumber (st envEmptyBatch) (BatchNumber (batch frame2V2))
              = Inr 2"
    by (simp_all add: chain_defs)
  have b: "Blocks \<lparr> Blocks = [] \<rparr> = []"
    by simp
  from empty_raw_batch_panics [OF p f n d b g, of traceConfig0] n b
  show ?thesis by simp
qed

end
